theory Spec2Isabelle
  imports Main "HOL-Library.AList" "HOL-Library.Sublist"
begin

section \<open>Data model (types/index.ts)\<close>

text \<open>
  The TypeScript unions \<open>Language\<close>, \<open>PackageManager\<close>, \<open>ProjectStyle\<close>, \<open>Database\<close>,
  \<open>ORM\<close>, \<open>Auth\<close> and \<open>BoilerplateLevel\<close> are unions of string literals. They are erased
  at run time and the resolver fills them by unchecked casts (\<open>options.db as 'mongodb' |
  'postgres'\<close>) from command-line strings, so the model keeps them as strings. An optional
  property (\<open>database?: Database\<close>) is an \<open>option\<close>; \<open>None\<close> is JavaScript's
  \<open>undefined\<close>.

  The generators read \<open>config.swagger.enabled\<close>, while the object literals built by the
  resolver and by \<open>addResource\<close> have no \<open>swagger\<close> property. The sub-record is therefore
  optional in the model, and reading \<open>.enabled\<close> of an absent one is the \<open>TypeError\<close> that
  JavaScript raises.
\<close>

record SwaggerConfig =
  enabled :: bool
  title :: string
  path :: string
  theme :: string

record ProjectConfig =
  name :: string
  language :: string
  packageManager :: string
  style :: string
  database :: "string option"
  orm :: "string option"
  auth :: "string option"
  testing :: bool
  eslint :: bool
  prettier :: bool
  docker :: bool
  git :: bool
  light :: bool
  boilerplateLevel :: string
  includeValidation :: bool
  swagger :: "SwaggerConfig option"

record ResourceConfig =
  r_name :: string
  generateTests :: bool
  r_withAuth :: bool
  r_boilerplateLevel :: string
  r_includeValidation :: bool
  customEndpoints :: "string list option"

text \<open>\<open>CreateOptions\<close>: every field is optional (absent means: defer to the resolver).\<close>

record CreateOptions =
  opt_lang :: "string option"
  opt_pkgManager :: "string option"
  opt_style :: "string option"
  opt_withDb :: "bool option"
  opt_db :: "string option"
  opt_orm :: "string option"
  opt_withAuth :: "bool option"
  opt_auth :: "string option"
  opt_withJest :: "bool option"
  opt_tests :: "bool option"
  opt_withEslint :: "bool option"
  opt_withPrettier :: "bool option"
  opt_withDocker :: "bool option"
  opt_git :: "bool option"
  opt_light :: "bool option"
  opt_boilerplate :: "string option"
  opt_validation :: "bool option"

record AddOptions =
  add_tests :: "bool option"
  add_withAuth :: "bool option"
  add_boilerplate :: "string option"
  add_validation :: "bool option"
  add_endpoints :: "string list option"

record DatabaseDependencies =
  dd_dependencies :: "string list"
  dd_devDependencies :: "string list"

datatype error = TypeError | ReadError

section \<open>JavaScript values\<close>

text \<open>
  Truthiness of an optional string: \<open>undefined\<close> and the empty string are falsy.
  \<open>a || b\<close> yields \<open>a\<close> when \<open>a\<close> is truthy and \<open>b\<close> otherwise.
\<close>

definition truthy :: "string option \<Rightarrow> bool" where
  "truthy a = (case a of None \<Rightarrow> False | Some v \<Rightarrow> v \<noteq> [])"

definition or_else :: "string option \<Rightarrow> string option \<Rightarrow> string option" where
  "or_else a b = (if truthy a then a else b)"

definition or_default :: "string option \<Rightarrow> string \<Rightarrow> string" where
  "or_default a d = (case a of None \<Rightarrow> d | Some v \<Rightarrow> if v = [] then d else v)"

text \<open>
  A \<open>Record<string, string>\<close> is an association list: assigning to a new key appends it,
  assigning to an existing key replaces the value in place (\<open>AList.update\<close>).
\<close>

type_synonym str_record = "(string \<times> string) list"

definition keys :: "str_record \<Rightarrow> string set" where
  "keys r = fst ` set r"

definition set_all :: "string list \<Rightarrow> string \<Rightarrow> str_record \<Rightarrow> str_record" where
  "set_all ks v r = fold (\<lambda>k acc. AList.update k v acc) ks r"

section \<open>The interactive channel (inquirer)\<close>

text \<open>
  \<open>inquirer.prompt(questions)\<close> walks the questions in order; a question whose \<open>when\<close>
  callback returns false on the answers collected so far is skipped, otherwise the
  user's answer is stored under the question's name. A \<open>list\<close> question answers with
  one of the values it offers, a \<open>confirm\<close> question with a boolean, an \<open>input\<close>
  question with free text. The message and the preselected default of a question are
  presentation only and are not part of the model.

  A \<open>list\<close> question that offers no value cannot be answered: the prompt stays open and
  \<open>inquirer.prompt\<close> never returns. In the model the answers are then \<open>None\<close>, and
  every function that awaits the prompt passes the \<open>None\<close> on.

  The user is an arbitrary strategy: what they pick from the offered values of a list
  question, and what they answer to a confirm or input question. A strategy is free to
  return a value that was not offered; the properties that need a pick from the offered
  values say so. Besides the answers the model returns the names of the questions that
  were really asked, the unanswerable one included.
\<close>

datatype answer = AStr string | ABool bool

type_synonym Answers = "(string \<times> answer) list"

datatype qkind = QList | QConfirm | QInput

record QuestionType =
  q_type :: qkind
  q_name :: string
  q_choices :: "Answers \<Rightarrow> string list"
  q_when :: "Answers \<Rightarrow> bool"

record User =
  pick :: "string \<Rightarrow> string list \<Rightarrow> string"
  confirm :: "string \<Rightarrow> bool"
  input :: "string \<Rightarrow> string"

definition get_str :: "Answers \<Rightarrow> string \<Rightarrow> string option" where
  "get_str answers k = (case map_of answers k of Some (AStr s) \<Rightarrow> Some s | _ \<Rightarrow> None)"

definition get_bool :: "Answers \<Rightarrow> string \<Rightarrow> bool option" where
  "get_bool answers k = (case map_of answers k of Some (ABool b) \<Rightarrow> Some b | _ \<Rightarrow> None)"

definition ask :: "User \<Rightarrow> QuestionType \<Rightarrow> Answers \<Rightarrow> answer option" where
  "ask u q answers =
     (case q_type q of
        QList \<Rightarrow>
          (if q_choices q answers = [] then None
           else Some (AStr (pick u (q_name q) (q_choices q answers))))
      | QConfirm \<Rightarrow> Some (ABool (confirm u (q_name q)))
      | QInput \<Rightarrow> Some (AStr (input u (q_name q))))"

fun prompt_from ::
  "User \<Rightarrow> QuestionType list \<Rightarrow> Answers \<Rightarrow> Answers option \<times> string list" where
  "prompt_from u [] answers = (Some answers, [])"
| "prompt_from u (q # qs) answers =
     (if q_when q answers
      then (case ask u q answers of
              None \<Rightarrow> (None, [q_name q])
            | Some a \<Rightarrow>
                (case prompt_from u qs (AList.update (q_name q) a answers) of
                   (final, asked) \<Rightarrow> (final, q_name q # asked)))
      else prompt_from u qs answers)"

definition prompt :: "User \<Rightarrow> QuestionType list \<Rightarrow> Answers option \<times> string list" where
  "prompt u questions = prompt_from u questions []"

definition question :: "qkind \<Rightarrow> string \<Rightarrow> string list \<Rightarrow> QuestionType" where
  "question k n cs = \<lparr>q_type = k, q_name = n, q_choices = (\<lambda>_. cs), q_when = (\<lambda>_. True)\<rparr>"

section \<open>Configuration resolver (utils/prompts.ts)\<close>

text \<open>
  Each resolver function returns its result, or \<open>None\<close> when a prompt it awaits never
  returns, together with the questions asked.
\<close>

definition promptLightMode :: "CreateOptions \<Rightarrow> User \<Rightarrow> bool option \<times> string list" where
  "promptLightMode options u =
     (case opt_light options of
        Some l \<Rightarrow> (Some l, [])
      | None \<Rightarrow>
          (case prompt u [question QConfirm ''light'' []] of
             (None, asked) \<Rightarrow> (None, asked)
           | (Some answers, asked) \<Rightarrow> (Some (get_bool answers ''light'' = Some True), asked)))"

definition promptConfigureMore :: "User \<Rightarrow> bool option \<times> string list" where
  "promptConfigureMore u =
     (case prompt u [question QConfirm ''configureMore'' []] of
        (None, asked) \<Rightarrow> (None, asked)
      | (Some answers, asked) \<Rightarrow> (Some (get_bool answers ''configureMore'' = Some True), asked))"

definition createLightConfig :: "string \<Rightarrow> CreateOptions \<Rightarrow> ProjectConfig" where
  "createLightConfig projectName options =
     \<lparr>name = projectName,
      language = or_default (opt_lang options) ''ts'',
      packageManager = or_default (opt_pkgManager options) ''npm'',
      style = ''resource'',
      database = None,
      orm = None,
      auth = None,
      testing = False,
      eslint = False,
      prettier = False,
      docker = False,
      git = (opt_git options \<noteq> Some False),
      light = True,
      boilerplateLevel = ''minimal'',
      includeValidation = False,
      swagger = None\<rparr>"

definition createDefaultConfig :: "string \<Rightarrow> CreateOptions \<Rightarrow> ProjectConfig" where
  "createDefaultConfig projectName options =
     \<lparr>name = projectName,
      language = or_default (opt_lang options) ''ts'',
      packageManager = or_default (opt_pkgManager options) ''npm'',
      style = or_default (opt_style options) ''resource'',
      database = None,
      orm = None,
      auth = None,
      testing = False,
      eslint = False,
      prettier = False,
      docker = False,
      git = (opt_git options \<noteq> Some False),
      light = False,
      boilerplateLevel = or_default (opt_boilerplate options) ''full'',
      includeValidation = (opt_validation options \<noteq> Some False),
      swagger = None\<rparr>"

text \<open>
  The adapter question: its choices and its \<open>when\<close> callback read
  \<open>options.db || answers.database\<close>.
\<close>

definition ormChoices :: "CreateOptions \<Rightarrow> Answers \<Rightarrow> string list" where
  "ormChoices options answers =
     (let db = or_else (opt_db options) (get_str answers ''database'') in
      if db = Some ''mongodb'' then [''mongoose'', ''prisma'']
      else if db = Some ''postgres'' then [''prisma'', ''sequelize'', ''typeorm'']
      else [])"

definition ormWhen :: "CreateOptions \<Rightarrow> Answers \<Rightarrow> bool" where
  "ormWhen options answers =
     (let db = or_else (opt_db options) (get_str answers ''database'') in
      db \<noteq> Some ''none'' \<and> \<not> truthy (opt_orm options))"

text \<open>The question list of \<open>promptFullConfiguration\<close>, in the order of its pushes.\<close>

definition fullQuestions :: "CreateOptions \<Rightarrow> QuestionType list" where
  "fullQuestions options =
     (if \<not> truthy (opt_lang options) then [question QList ''language'' [''ts'', ''js'']] else []) @
     (if \<not> truthy (opt_pkgManager options)
      then [question QList ''packageManager'' [''npm'', ''yarn'', ''pnpm'']] else []) @
     (if \<not> truthy (opt_style options)
      then [question QList ''style'' [''resource'', ''layered'']] else []) @
     (if \<not> truthy (opt_boilerplate options)
      then [question QList ''boilerplateLevel'' [''full'', ''signatures'', ''minimal'']] else []) @
     (if opt_validation options = None then [question QConfirm ''includeValidation'' []] else []) @
     (if opt_withDb options = None
      then [question QList ''database'' [''none'', ''mongodb'', ''postgres'']] else []) @
     [\<lparr>q_type = QList, q_name = ''orm'',
       q_choices = ormChoices options, q_when = ormWhen options\<rparr>] @
     (if opt_withAuth options = None
      then [question QList ''auth'' [''none'', ''jwt'', ''passport'']] else []) @
     (if opt_withJest options = None \<and> opt_tests options \<noteq> Some False
      then [question QConfirm ''testing'' []] else []) @
     (if opt_withEslint options = None then [question QConfirm ''eslint'' []] else []) @
     (if opt_withPrettier options = None then [question QConfirm ''prettier'' []] else []) @
     (if opt_withDocker options = None then [question QConfirm ''docker'' []] else []) @
     (if opt_git options \<noteq> Some False then [question QConfirm ''git'' []] else [])"

definition none_to_undefined :: "string option \<Rightarrow> string option" where
  "none_to_undefined a = (if a = Some ''none'' then None else a)"

definition fullConfig :: "string \<Rightarrow> CreateOptions \<Rightarrow> Answers \<Rightarrow> ProjectConfig" where
  "fullConfig projectName options answers =
     \<lparr>name = projectName,
      language = or_default (or_else (opt_lang options) (get_str answers ''language'')) ''ts'',
      packageManager =
        or_default (or_else (opt_pkgManager options) (get_str answers ''packageManager'')) ''npm'',
      style = or_default (or_else (opt_style options) (get_str answers ''style'')) ''resource'',
      database =
        (if opt_withDb options = Some True then Some (or_default (opt_db options) ''mongodb'')
         else none_to_undefined (get_str answers ''database'')),
      orm = or_else (opt_orm options) (get_str answers ''orm''),
      auth =
        (if opt_withAuth options = Some True then Some (or_default (opt_auth options) ''jwt'')
         else none_to_undefined (get_str answers ''auth'')),
      testing =
        (if opt_tests options = Some False then False
         else (opt_withJest options = Some True \<or> get_bool answers ''testing'' = Some True)),
      eslint = (opt_withEslint options = Some True \<or> get_bool answers ''eslint'' = Some True),
      prettier = (opt_withPrettier options = Some True \<or> get_bool answers ''prettier'' = Some True),
      docker = (opt_withDocker options = Some True \<or> get_bool answers ''docker'' = Some True),
      git = (if opt_git options \<noteq> Some False then get_bool answers ''git'' \<noteq> Some False else False),
      light = False,
      boilerplateLevel =
        or_default (or_else (opt_boilerplate options) (get_str answers ''boilerplateLevel'')) ''full'',
      includeValidation =
        (if opt_validation options \<noteq> Some False
         then get_bool answers ''includeValidation'' \<noteq> Some False else False),
      swagger = None\<rparr>"

definition promptFullConfiguration ::
  "string \<Rightarrow> CreateOptions \<Rightarrow> User \<Rightarrow> ProjectConfig option \<times> string list" where
  "promptFullConfiguration projectName options u =
     (case prompt u (fullQuestions options) of
        (None, asked) \<Rightarrow> (None, asked)
      | (Some answers, asked) \<Rightarrow> (Some (fullConfig projectName options answers), asked))"

definition promptProjectConfig ::
  "string \<Rightarrow> CreateOptions \<Rightarrow> User \<Rightarrow> ProjectConfig option \<times> string list" where
  "promptProjectConfig projectName options u =
     (case promptLightMode options u of
        (None, asked1) \<Rightarrow> (None, asked1)
      | (Some lightMode, asked1) \<Rightarrow>
          if lightMode then (Some (createLightConfig projectName options), asked1)
          else (case promptConfigureMore u of
                  (None, asked2) \<Rightarrow> (None, asked1 @ asked2)
                | (Some configureMore, asked2) \<Rightarrow>
                    if \<not> configureMore
                    then (Some (createDefaultConfig projectName options), asked1 @ asked2)
                    else (case promptFullConfiguration projectName options u of
                            (config, asked3) \<Rightarrow> (config, asked1 @ asked2 @ asked3))))"

section \<open>Dependency matrix (generators/project.ts, generators/packageJson.ts)\<close>

definition getDatabaseDependencies :: "string option \<Rightarrow> string option \<Rightarrow> DatabaseDependencies" where
  "getDatabaseDependencies dbKind ormKind =
     (if \<not> truthy dbKind \<or> dbKind = Some ''none''
      then \<lparr>dd_dependencies = [], dd_devDependencies = []\<rparr>
      else if ormKind = Some ''mongoose''
      then \<lparr>dd_dependencies = [''mongoose''], dd_devDependencies = [''@types/mongoose'']\<rparr>
      else if ormKind = Some ''prisma''
      then \<lparr>dd_dependencies = [''@prisma/client''], dd_devDependencies = [''prisma'']\<rparr>
      else if ormKind = Some ''sequelize''
      then \<lparr>dd_dependencies =
              [''sequelize''] @ (if dbKind = Some ''postgres'' then [''pg''] else []),
            dd_devDependencies =
              [''@types/sequelize''] @ (if dbKind = Some ''postgres'' then [''@types/pg''] else [])\<rparr>
      else if ormKind = Some ''typeorm''
      then \<lparr>dd_dependencies =
              [''typeorm'', ''reflect-metadata''] @
              (if dbKind = Some ''postgres'' then [''pg'']
               else if dbKind = Some ''mongodb'' then [''mongodb''] else []),
            dd_devDependencies = (if dbKind = Some ''postgres'' then [''@types/pg''] else [])\<rparr>
      else \<lparr>dd_dependencies = [], dd_devDependencies = []\<rparr>)"

definition getAuthDependencies :: "string option \<Rightarrow> DatabaseDependencies" where
  "getAuthDependencies authKind =
     (if \<not> truthy authKind \<or> authKind = Some ''none''
      then \<lparr>dd_dependencies = [], dd_devDependencies = []\<rparr>
      else if authKind = Some ''jwt''
      then \<lparr>dd_dependencies = [''jsonwebtoken'', ''bcryptjs''],
            dd_devDependencies = [''@types/jsonwebtoken'', ''@types/bcryptjs'']\<rparr>
      else if authKind = Some ''passport''
      then \<lparr>dd_dependencies = [''passport'', ''passport-local'', ''express-session''],
            dd_devDependencies =
              [''@types/passport'', ''@types/passport-local'', ''@types/express-session'']\<rparr>
      else \<lparr>dd_dependencies = [], dd_devDependencies = []\<rparr>)"

text \<open>\<open>assign_all\<close> performs a run of assignments \<open>r[k] = v\<close> in the order given.\<close>

definition assign_all :: "(string \<times> string) list \<Rightarrow> str_record \<Rightarrow> str_record" where
  "assign_all kvs r = fold (\<lambda>kv acc. AList.update (fst kv) (snd kv) acc) kvs r"

definition generateScripts :: "ProjectConfig \<Rightarrow> str_record" where
  "generateScripts config =
     (let scripts = [];
          scripts =
            (if language config = ''ts''
             then assign_all
                    [(''build'', ''tsc''),
                     (''start'', ''node dist/server.js''),
                     (''dev'', ''ts-node src/server.ts''),
                     (''dev:watch'', ''ts-node --transpile-only src/server.ts'')] scripts
             else assign_all
                    [(''start'', ''node src/server.js''),
                     (''dev'', ''nodemon src/server.js'')] scripts);
          scripts =
            (if testing config
             then assign_all
                    [(''test'', ''jest''),
                     (''test:watch'', ''jest --watch''),
                     (''test:coverage'', ''jest --coverage'')] scripts
             else scripts);
          scripts =
            (if eslint config
             then assign_all
                    [(''lint'',
                      if language config = ''ts'' then ''eslint src/**/*.ts''
                      else ''eslint src/**/*.js''),
                     (''lint:fix'',
                      if language config = ''ts'' then ''eslint src/**/*.ts --fix''
                      else ''eslint src/**/*.js --fix'')] scripts
             else scripts);
          scripts =
            (if prettier config
             then assign_all
                    [(''format'',
                      if language config = ''ts'' then ''prettier --write src/**/*.ts''
                      else ''prettier --write src/**/*.js'')] scripts
             else scripts);
          scripts =
            (if orm config = Some ''prisma''
             then assign_all
                    [(''db:generate'', ''prisma generate''),
                     (''db:push'', ''prisma db push''),
                     (''db:migrate'', ''prisma migrate dev''),
                     (''db:studio'', ''prisma studio'')] scripts
             else scripts)
      in scripts)"

text \<open>
  \<open>generateDependencies\<close> reads \<open>config.swagger.enabled\<close> after the database and auth
  names have been added; on a configuration without the sub-record that read raises.
\<close>

definition generateDependencies :: "ProjectConfig \<Rightarrow> error + str_record" where
  "generateDependencies config =
     (let deps =
            assign_all
              [(''express'', ''^4.18.2''),
               (''cors'', ''^2.8.5''),
               (''helmet'', ''^7.0.0''),
               (''express-rate-limit'', ''^6.10.0'')] [];
          deps = assign_all [(''express-validator'', ''^7.0.1'')] deps;
          dbDeps = getDatabaseDependencies (database config) (orm config);
          deps = set_all (dd_dependencies dbDeps) ''latest'' deps;
          authDeps = getAuthDependencies (auth config);
          deps = set_all (dd_dependencies authDeps) ''latest'' deps
      in case swagger config of
           None \<Rightarrow> Inl TypeError
         | Some sw \<Rightarrow>
             (let deps =
                    (if enabled sw
                     then assign_all
                            [(''swagger-ui-express'', ''^5.0.0''),
                             (''swagger-jsdoc'', ''^6.2.8''),
                             (''yamljs'', ''^0.3.0'')] deps
                     else deps);
                  deps = assign_all [(''dotenv'', ''^16.3.1'')] deps
              in Inr deps))"

text \<open>
  \<open>generateDevDependencies\<close>, both branches of its dialect test. The swagger read is
  inside the \<open>ts\<close> branch only; \<open>devDependencies_rest\<close> is the part of the function
  after that first test.
\<close>

definition devDependencies_rest :: "ProjectConfig \<Rightarrow> str_record \<Rightarrow> str_record" where
  "devDependencies_rest config devDeps0 =
     (let devDeps = devDeps0;
          devDeps =
            (if testing config
             then (let devDeps =
                         (if language config = ''ts''
                          then assign_all
                                 [(''jest'', ''^29.6.2''),
                                  (''@types/jest'', ''^29.5.4''),
                                  (''ts-jest'', ''^29.1.1'')] devDeps
                          else assign_all [(''jest'', ''^29.6.2'')] devDeps)
                   in assign_all
                        [(''supertest'', ''^6.3.3''),
                         (''@types/supertest'', ''^2.0.12'')] devDeps)
             else devDeps);
          devDeps =
            (if eslint config
             then (let devDeps = assign_all [(''eslint'', ''^8.47.0'')] devDeps
                   in if language config = ''ts''
                      then assign_all
                             [(''@typescript-eslint/eslint-plugin'', ''^6.4.0''),
                              (''@typescript-eslint/parser'', ''^6.4.0'')] devDeps
                      else devDeps)
             else devDeps);
          devDeps =
            (if prettier config
             then (let devDeps = assign_all [(''prettier'', ''^3.0.2'')] devDeps
                   in if eslint config
                      then assign_all
                             [(''eslint-config-prettier'', ''^9.0.0''),
                              (''eslint-plugin-prettier'', ''^5.0.0'')] devDeps
                      else devDeps)
             else devDeps);
          dbDeps = getDatabaseDependencies (database config) (orm config);
          devDeps = set_all (dd_devDependencies dbDeps) ''latest'' devDeps;
          authDeps = getAuthDependencies (auth config);
          devDeps = set_all (dd_devDependencies authDeps) ''latest'' devDeps
      in devDeps)"

definition generateDevDependencies :: "ProjectConfig \<Rightarrow> error + str_record" where
  "generateDevDependencies config =
     (if language config = ''ts''
      then (let devDeps =
                  assign_all
                    [(''typescript'', ''^5.1.6''),
                     (''ts-node'', ''^10.9.1''),
                     (''@types/node'', ''^20.5.0''),
                     (''@types/express'', ''^4.17.17''),
                     (''@types/cors'', ''^2.8.13'')] []
            in case swagger config of
                 None \<Rightarrow> Inl TypeError
               | Some sw \<Rightarrow>
                   Inr (devDependencies_rest config
                          (if enabled sw
                           then assign_all
                                  [(''@types/swagger-ui-express'', ''^4.1.3''),
                                   (''@types/swagger-jsdoc'', ''^6.0.1''),
                                   (''@types/yamljs'', ''^0.2.31'')] devDeps
                           else devDeps)))
      else Inr (devDependencies_rest config (assign_all [(''nodemon'', ''^3.0.1'')] [])))"

record PackageJson =
  pj_name :: string
  pj_version :: string
  pj_description :: string
  pj_main :: string
  pj_scripts :: str_record
  pj_keywords :: "string list"
  pj_author :: string
  pj_license :: string
  pj_dependencies :: str_record
  pj_devDependencies :: str_record

text \<open>
  The manifest object of \<open>generatePackageJson\<close>; the function then writes it to
  \<open>package.json\<close>. The development map is computed for the \<open>ts\<close> dialect only and is
  the empty object otherwise.
\<close>

definition generatePackageJson :: "ProjectConfig \<Rightarrow> error + PackageJson" where
  "generatePackageJson config =
     (case generateDependencies config of
        Inl e \<Rightarrow> Inl e
      | Inr deps \<Rightarrow>
          (case (if language config = ''ts'' then generateDevDependencies config else Inr []) of
             Inl e \<Rightarrow> Inl e
           | Inr devDeps \<Rightarrow>
               Inr \<lparr>pj_name = name config,
                    pj_version = ''1.0.0'',
                    pj_description = [],
                    pj_main = (if language config = ''ts'' then ''dist/server.js'' else ''src/server.js''),
                    pj_scripts = generateScripts config,
                    pj_keywords = [],
                    pj_author = [],
                    pj_license = ''ISC'',
                    pj_dependencies = deps,
                    pj_devDependencies = devDeps\<rparr>))"

section \<open>Project introspection (commands/add.ts)\<close>

text \<open>
  The manifest read back from \<open>package.json\<close>: a name and two optional maps from
  dependency names to version strings. \<open>{...a, ...b}\<close> copies \<open>a\<close> and then assigns
  every entry of \<open>b\<close>; spreading \<open>undefined\<close> adds nothing. The detectors test
  \<open>deps.mongoose\<close> and the like for truthiness, so an entry whose version is the empty
  string does not count.
\<close>

record Manifest =
  mf_name :: string
  mf_dependencies :: "str_record option"
  mf_devDependencies :: "str_record option"

definition spread :: "str_record option \<Rightarrow> str_record option \<Rightarrow> str_record" where
  "spread a b =
     assign_all (case b of None \<Rightarrow> [] | Some y \<Rightarrow> y)
       (assign_all (case a of None \<Rightarrow> [] | Some x \<Rightarrow> x) [])"

definition manifestDeps :: "Manifest \<Rightarrow> str_record" where
  "manifestDeps packageJson = spread (mf_dependencies packageJson) (mf_devDependencies packageJson)"

definition has_dep :: "str_record \<Rightarrow> string \<Rightarrow> bool" where
  "has_dep deps k = truthy (map_of deps k)"

definition detectDatabase :: "Manifest \<Rightarrow> string option" where
  "detectDatabase packageJson =
     (let deps = manifestDeps packageJson in
      if has_dep deps ''mongoose'' then Some ''mongodb''
      else if has_dep deps ''pg'' \<or> has_dep deps ''@prisma/client'' then Some ''postgres''
      else Some ''none'')"

definition detectORM :: "Manifest \<Rightarrow> string option" where
  "detectORM packageJson =
     (let deps = manifestDeps packageJson in
      if has_dep deps ''mongoose'' then Some ''mongoose''
      else if has_dep deps ''@prisma/client'' \<or> has_dep deps ''prisma'' then Some ''prisma''
      else if has_dep deps ''sequelize'' then Some ''sequelize''
      else if has_dep deps ''typeorm'' then Some ''typeorm''
      else None)"

definition detectAuth :: "Manifest \<Rightarrow> string option" where
  "detectAuth packageJson =
     (let deps = manifestDeps packageJson in
      if has_dep deps ''jsonwebtoken'' then Some ''jwt''
      else if has_dep deps ''passport'' then Some ''passport''
      else Some ''none'')"

text \<open>
  \<open>hasJest = packageJson.devDependencies?.jest || packageJson.dependencies?.jest\<close>,
  and the configuration object that \<open>addResource\<close> builds from the manifest and from
  the presence of \<open>tsconfig.json\<close>.
\<close>

definition hasJest :: "Manifest \<Rightarrow> bool" where
  "hasJest packageJson =
     (truthy (case mf_devDependencies packageJson of None \<Rightarrow> None | Some d \<Rightarrow> map_of d ''jest'')
      \<or> truthy (case mf_dependencies packageJson of None \<Rightarrow> None | Some d \<Rightarrow> map_of d ''jest''))"

definition addResource_projectConfig :: "Manifest \<Rightarrow> bool \<Rightarrow> ProjectConfig" where
  "addResource_projectConfig packageJson hasTsConfig =
     \<lparr>name = mf_name packageJson,
      language = (if hasTsConfig then ''ts'' else ''js''),
      packageManager = ''npm'',
      style = ''resource'',
      database = detectDatabase packageJson,
      orm = detectORM packageJson,
      auth = detectAuth packageJson,
      testing = hasJest packageJson,
      eslint = False,
      prettier = False,
      docker = False,
      git = False,
      light = False,
      boilerplateLevel = ''full'',
      includeValidation = True,
      swagger = None\<rparr>"

section \<open>Resource artifacts (generators/resourceFiles.ts)\<close>

text \<open>
  \<open>resourceName.charAt(0).toUpperCase() + resourceName.slice(1)\<close>. Strings are byte
  strings here, and \<open>toUpperCase\<close> is modelled on the letters \<open>a\<close> to \<open>z\<close>; every other
  first character is kept.
\<close>

definition toUpperCase_char :: "char \<Rightarrow> char" where
  "toUpperCase_char c =
     (let n = (of_char c :: nat) in if 97 \<le> n \<and> n \<le> 122 then char_of (n - 32) else c)"

definition capitalize :: "string \<Rightarrow> string" where
  "capitalize s = (case s of [] \<Rightarrow> [] | c # cs \<Rightarrow> toUpperCase_char c # cs)"

text \<open>
  The content generators return the text of a template literal. Each template is written
  as the concatenation of its source lines, with the interpolated values in place.
  None of them reads \<open>boilerplateLevel\<close>, \<open>includeValidation\<close> or \<open>customEndpoints\<close>.
\<close>

definition generateServiceContent :: "ProjectConfig \<Rightarrow> ResourceConfig \<Rightarrow> string" where
  \<open>generateServiceContent projectConfig resourceConfig =
     (let isTypeScript = (language projectConfig = ''ts'');
          resourceName = r_name resourceConfig;
          ResourceName = capitalize resourceName;
          modelImport =
            (if truthy (database projectConfig) \<and> database projectConfig \<noteq> Some ''none''
             then (if isTypeScript
                   then concat
                    [''import { '', ResourceName, ''Model } from './model';'']
                   else concat
                    [''const { '', ResourceName, ''Model } = require('./model');''])
             else []);
          serviceContent =
            (if truthy (database projectConfig) \<and> database projectConfig \<noteq> Some ''none''
             then (if isTypeScript
                   then concat
                    [''export class '', ResourceName, ''Service {\<newline>'',
                     ''  async findAll(): Promise<any[]> {\<newline>'',
                     ''    return await '', ResourceName, ''Model.find();\<newline>'',
                     ''  }\<newline>'',
                     ''\<newline>'',
                     ''  async findById(id: string): Promise<any | null> {\<newline>'',
                     ''    return await '', ResourceName, ''Model.findById(id);\<newline>'',
                     ''  }\<newline>'',
                     ''\<newline>'',
                     ''  async create(data: any): Promise<any> {\<newline>'',
                     ''    return await '', ResourceName, ''Model.create(data);\<newline>'',
                     ''  }\<newline>'',
                     ''\<newline>'',
                     ''  async update(id: string, data: any): Promise<any | null> {\<newline>'',
                     ''    return await '', ResourceName, ''Model.findByIdAndUpdate(id, data, { new: true });\<newline>'',
                     ''  }\<newline>'',
                     ''\<newline>'',
                     ''  async delete(id: string): Promise<boolean> {\<newline>'',
                     ''    const result = await '', ResourceName, ''Model.findByIdAndDelete(id);\<newline>'',
                     ''    return !!result;\<newline>'',
                     ''  }\<newline>'',
                     ''}'']
                   else concat
                    [''class '', ResourceName, ''Service {\<newline>'',
                     ''  async findAll() {\<newline>'',
                     ''    return await '', ResourceName, ''Model.find();\<newline>'',
                     ''  }\<newline>'',
                     ''\<newline>'',
                     ''  async findById(id) {\<newline>'',
                     ''    return await '', ResourceName, ''Model.findById(id);\<newline>'',
                     ''  }\<newline>'',
                     ''\<newline>'',
                     ''  async create(data) {\<newline>'',
                     ''    return await '', ResourceName, ''Model.create(data);\<newline>'',
                     ''  }\<newline>'',
                     ''\<newline>'',
                     ''  async update(id, data) {\<newline>'',
                     ''    return await '', ResourceName, ''Model.findByIdAndUpdate(id, data, { new: true });\<newline>'',
                     ''  }\<newline>'',
                     ''\<newline>'',
                     ''  async delete(id) {\<newline>'',
                     ''    const result = await '', ResourceName, ''Model.findByIdAndDelete(id);\<newline>'',
                     ''    return !!result;\<newline>'',
                     ''  }\<newline>'',
                     ''}\<newline>'',
                     ''\<newline>'',
                     ''module.exports = { '', ResourceName, ''Service };''])
             else (if isTypeScript
                   then concat
                    [''export class '', ResourceName, ''Service {\<newline>'',
                     ''  private '', resourceName, ''s: any[] = [];\<newline>'',
                     ''  private nextId = 1;\<newline>'',
                     ''\<newline>'',
                     ''  async findAll(): Promise<any[]> {\<newline>'',
                     ''    return this.'', resourceName, ''s;\<newline>'',
                     ''  }\<newline>'',
                     ''\<newline>'',
                     ''  async findById(id: string): Promise<any | null> {\<newline>'',
                     ''    return this.'', resourceName, ''s.find(item => item.id === parseInt(id)) || null;\<newline>'',
                     ''  }\<newline>'',
                     ''\<newline>'',
                     ''  async create(data: any): Promise<any> {\<newline>'',
                     ''    const new'', ResourceName, '' = { id: this.nextId++, ...data, createdAt: new Date() };\<newline>'',
                     ''    this.'', resourceName, ''s.push(new'', ResourceName, '');\<newline>'',
                     ''    return new'', ResourceName, '';\<newline>'',
                     ''  }\<newline>'',
                     ''\<newline>'',
                     ''  async update(id: string, data: any): Promise<any | null> {\<newline>'',
                     ''    const index = this.'', resourceName, ''s.findIndex(item => item.id === parseInt(id));\<newline>'',
                     ''    if (index === -1) return null;\<newline>'',
                     ''    \<newline>'',
                     ''    this.'', resourceName, ''s[index] = { ...this.'', resourceName, ''s[index], ...data, updatedAt: new Date() };\<newline>'',
                     ''    return this.'', resourceName, ''s[index];\<newline>'',
                     ''  }\<newline>'',
                     ''\<newline>'',
                     ''  async delete(id: string): Promise<boolean> {\<newline>'',
                     ''    const index = this.'', resourceName, ''s.findIndex(item => item.id === parseInt(id));\<newline>'',
                     ''    if (index === -1) return false;\<newline>'',
                     ''    \<newline>'',
                     ''    this.'', resourceName, ''s.splice(index, 1);\<newline>'',
                     ''    return true;\<newline>'',
                     ''  }\<newline>'',
                     ''}'']
                   else concat
                    [''class '', ResourceName, ''Service {\<newline>'',
                     ''  constructor() {\<newline>'',
                     ''    this.'', resourceName, ''s = [];\<newline>'',
                     ''    this.nextId = 1;\<newline>'',
                     ''  }\<newline>'',
                     ''\<newline>'',
                     ''  async findAll() {\<newline>'',
                     ''    return this.'', resourceName, ''s;\<newline>'',
                     ''  }\<newline>'',
                     ''\<newline>'',
                     ''  async findById(id) {\<newline>'',
                     ''    return this.'', resourceName, ''s.find(item => item.id === parseInt(id)) || null;\<newline>'',
                     ''  }\<newline>'',
                     ''\<newline>'',
                     ''  async create(data) {\<newline>'',
                     ''    const new'', ResourceName, '' = { id: this.nextId++, ...data, createdAt: new Date() };\<newline>'',
                     ''    this.'', resourceName, ''s.push(new'', ResourceName, '');\<newline>'',
                     ''    return new'', ResourceName, '';\<newline>'',
                     ''  }\<newline>'',
                     ''\<newline>'',
                     ''  async update(id, data) {\<newline>'',
                     ''    const index = this.'', resourceName, ''s.findIndex(item => item.id === parseInt(id));\<newline>'',
                     ''    if (index === -1) return null;\<newline>'',
                     ''    \<newline>'',
                     ''    this.'', resourceName, ''s[index] = { ...this.'', resourceName, ''s[index], ...data, updatedAt: new Date() };\<newline>'',
                     ''    return this.'', resourceName, ''s[index];\<newline>'',
                     ''  }\<newline>'',
                     ''\<newline>'',
                     ''  async delete(id) {\<newline>'',
                     ''    const index = this.'', resourceName, ''s.findIndex(item => item.id === parseInt(id));\<newline>'',
                     ''    if (index === -1) return false;\<newline>'',
                     ''    \<newline>'',
                     ''    this.'', resourceName, ''s.splice(index, 1);\<newline>'',
                     ''    return true;\<newline>'',
                     ''  }\<newline>'',
                     ''}\<newline>'',
                     ''\<newline>'',
                     ''module.exports = { '', ResourceName, ''Service };'']))
      in concat [modelImport, ''\<newline>'', ''\<newline>'', serviceContent])\<close>

definition generateRoutesContent :: "ProjectConfig \<Rightarrow> ResourceConfig \<Rightarrow> string" where
  \<open>generateRoutesContent projectConfig resourceConfig =
     (let isTypeScript = (language projectConfig = ''ts'');
          resourceName = r_name resourceConfig;
          ResourceName = capitalize resourceName;
          useAuth = (r_withAuth resourceConfig \<and> truthy (auth projectConfig)
                     \<and> auth projectConfig \<noteq> Some ''none'');
          authImport =
            (if useAuth
             then (if isTypeScript
                   then concat
                    [''import { authenticateToken } from '../../middleware/auth';'']
                   else concat
                    [''const { authenticateToken } = require('../../middleware/auth');''])
             else []);
          authMiddleware = (if useAuth then '', authenticateToken'' else [])
      in if isTypeScript
         then concat
          [''import { Router } from 'express';\<newline>'',
           ''import { '', ResourceName, ''Controller } from './controller';\<newline>'',
           ''import { validate'', ResourceName, '' } from './validation';'', authImport, ''\<newline>'',
           ''\<newline>'',
           ''const router = Router();\<newline>'',
           ''const '', resourceName, ''Controller = new '', ResourceName, ''Controller();\<newline>'',
           ''\<newline>'',
           ''router.get('/', '', resourceName, ''Controller.getAll);\<newline>'',
           ''router.get('/:id', '', resourceName, ''Controller.getById);\<newline>'',
           ''router.post('/', validate'', ResourceName, authMiddleware, '', '', resourceName, ''Controller.create);\<newline>'',
           ''router.put('/:id', validate'', ResourceName, authMiddleware, '', '', resourceName, ''Controller.update);\<newline>'',
           ''router.delete('/:id'', [CHR 0x27], authMiddleware, '', '', resourceName, ''Controller.delete);\<newline>'',
           ''\<newline>'',
           ''export default router;'']
         else concat
          [''const { Router } = require('express');\<newline>'',
           ''const { '', ResourceName, ''Controller } = require('./controller');\<newline>'',
           ''const { validate'', ResourceName, '' } = require('./validation');'', authImport, ''\<newline>'',
           ''\<newline>'',
           ''const router = Router();\<newline>'',
           ''const '', resourceName, ''Controller = new '', ResourceName, ''Controller();\<newline>'',
           ''\<newline>'',
           ''router.get('/', '', resourceName, ''Controller.getAll);\<newline>'',
           ''router.get('/:id', '', resourceName, ''Controller.getById);\<newline>'',
           ''router.post('/', validate'', ResourceName, authMiddleware, '', '', resourceName, ''Controller.create);\<newline>'',
           ''router.put('/:id', validate'', ResourceName, authMiddleware, '', '', resourceName, ''Controller.update);\<newline>'',
           ''router.delete('/:id'', [CHR 0x27], authMiddleware, '', '', resourceName, ''Controller.delete);\<newline>'',
           ''\<newline>'',
           ''module.exports = router;''])\<close>

definition generateIndexContent :: "ProjectConfig \<Rightarrow> ResourceConfig \<Rightarrow> string" where
  \<open>generateIndexContent projectConfig resourceConfig =
     (let isTypeScript = (language projectConfig = ''ts'');
          resourceName = r_name resourceConfig
      in if isTypeScript
         then concat
          [''import { Application } from 'express';\<newline>'',
           ''import '', resourceName, ''Routes from './routes';\<newline>'',
           ''\<newline>'',
           ''export default function register'', capitalize resourceName, ''Routes(app: Application): void {\<newline>'',
           ''  app.use('/api/'', resourceName, ''s', '', resourceName, ''Routes);\<newline>'',
           ''}'']
         else concat
          [''const '', resourceName, ''Routes = require('./routes');\<newline>'',
           ''\<newline>'',
           ''function register'', capitalize resourceName, ''Routes(app) {\<newline>'',
           ''  app.use('/api/'', resourceName, ''s', '', resourceName, ''Routes);\<newline>'',
           ''}\<newline>'',
           ''\<newline>'',
           ''module.exports = register'', capitalize resourceName, ''Routes;''])\<close>

section \<open>File system effects\<close>

text \<open>
  The file-system collaborator is used for three things: does a path exist, read a JSON
  manifest, and create a directory or write a file. What a command does to the file system
  is the list of its creations and writes, in order. A write records the path and which
  content generator produced the text (called on the same project and resource
  configuration as the write).
\<close>

datatype node = Directory | TextFile | JsonFile Manifest

type_synonym FS = "string \<Rightarrow> node option"

definition pathExists :: "FS \<Rightarrow> string \<Rightarrow> bool" where
  "pathExists fs p = (fs p \<noteq> None)"

definition readJson :: "FS \<Rightarrow> string \<Rightarrow> error + Manifest" where
  "readJson fs p = (case fs p of Some (JsonFile m) \<Rightarrow> Inr m | _ \<Rightarrow> Inl ReadError)"

text \<open>\<open>path.join\<close> of two segments, without the normalisation of dots and separators.\<close>

definition path_join :: "string \<Rightarrow> string \<Rightarrow> string" where
  "path_join a b = a @ ''/'' @ b"

datatype artifact =
    ControllerContent | ServiceContent | RoutesContent | ValidationContent
  | IndexContent | ModelContent | TestContent | PrismaSchemaContent

datatype fs_op = EnsureDir string | WriteFile string artifact

definition generateResource :: "ProjectConfig \<Rightarrow> ResourceConfig \<Rightarrow> string \<Rightarrow> fs_op list" where
  "generateResource projectConfig resourceConfig basePath =
     (let resourcePath = path_join (path_join basePath ''resources'') (r_name resourceConfig);
          isTypeScript = (language projectConfig = ''ts'');
          ext = (if isTypeScript then ''.ts'' else ''.js'')
      in [EnsureDir resourcePath,
          WriteFile (path_join resourcePath (''controller'' @ ext)) ControllerContent,
          WriteFile (path_join resourcePath (''service'' @ ext)) ServiceContent,
          WriteFile (path_join resourcePath (''routes'' @ ext)) RoutesContent,
          WriteFile (path_join resourcePath (''validation'' @ ext)) ValidationContent,
          WriteFile (path_join resourcePath (''index'' @ ext)) IndexContent] @
         (if truthy (database projectConfig) \<and> database projectConfig \<noteq> Some ''none''
          then [WriteFile (path_join resourcePath (''model'' @ ext)) ModelContent] else []) @
         (if generateTests resourceConfig \<and> testing projectConfig
          then [WriteFile (path_join resourcePath (r_name resourceConfig @ ''.test'' @ ext)) TestContent]
          else []))"

section \<open>Tooling configuration and directories (generators/configFiles.ts, generators/project.ts)\<close>

text \<open>
  \<open>generateConfigFiles\<close> starts one sub-generator per enabled tool; the model lists them in
  the order they are pushed. \<open>generatePrismaSchema\<close> creates the \<open>prisma\<close> directory and
  writes \<open>schema.prisma\<close>; its text depends on the database kind only.
\<close>

datatype config_task =
    TsConfig | JestConfig | EslintConfig | PrettierConfig | DockerFiles | PrismaSchema | Gitignore

definition generateConfigFiles :: "ProjectConfig \<Rightarrow> config_task list" where
  "generateConfigFiles config =
     (if language config = ''ts'' then [TsConfig] else []) @
     (if testing config then [JestConfig] else []) @
     (if eslint config then [EslintConfig] else []) @
     (if prettier config then [PrettierConfig] else []) @
     (if docker config then [DockerFiles] else []) @
     (if orm config = Some ''prisma'' then [PrismaSchema] else []) @
     [Gitignore]"

definition prismaSchemaText :: "ProjectConfig \<Rightarrow> string" where
  \<open>prismaSchemaText config =
     (let schema =
        concat
          [''// This is your Prisma schema file,\<newline>'',
           ''// learn more about it in the docs: https://pris.ly/d/prisma-schema\<newline>'',
           ''\<newline>'',
           ''generator client {\<newline>'',
           ''  provider = "prisma-client-js"\<newline>'',
           ''}\<newline>'',
           ''\<newline>'',
           ''datasource db {'']
      in if database config = Some ''postgres''
         then schema @
              concat
               [''\<newline>'',
                ''  provider = "postgresql"\<newline>'',
                ''  url      = env("DATABASE_URL")\<newline>'',
                ''}\<newline>'',
                ''\<newline>'',
                ''model User {\<newline>'',
                ''  id        Int      @id @default(autoincrement())\<newline>'',
                ''  name      String\<newline>'',
                ''  email     String?  @unique\<newline>'',
                ''  createdAt DateTime @default(now())\<newline>'',
                ''  updatedAt DateTime @updatedAt\<newline>'',
                ''}'']
         else if database config = Some ''mongodb''
         then schema @
              concat
               [''\<newline>'',
                ''  provider = "mongodb"\<newline>'',
                ''  url      = env("DATABASE_URL")\<newline>'',
                ''}\<newline>'',
                ''\<newline>'',
                ''model User {\<newline>'',
                ''  id        String   @id @default(auto()) @map("_id") @db.ObjectId\<newline>'',
                ''  name      String\<newline>'',
                ''  email     String?  @unique\<newline>'',
                ''  createdAt DateTime @default(now())\<newline>'',
                ''  updatedAt DateTime @updatedAt\<newline>'',
                ''}'']
         else schema)\<close>

definition generatePrismaSchema :: "ProjectConfig \<Rightarrow> string \<Rightarrow> fs_op list" where
  "generatePrismaSchema config projectPath =
     (let prismaPath = path_join projectPath ''prisma''
      in [EnsureDir prismaPath, WriteFile (path_join prismaPath ''schema.prisma'') PrismaSchemaContent])"

definition createDirectoryStructure :: "ProjectConfig \<Rightarrow> string \<Rightarrow> fs_op list" where
  "createDirectoryStructure config projectPath =
     (let srcPath = path_join projectPath ''src''
      in [EnsureDir (path_join srcPath ''middleware''),
          EnsureDir (path_join srcPath ''utils''),
          EnsureDir (path_join srcPath ''types'')] @
         (if style config = ''resource''
          then [EnsureDir (path_join srcPath ''resources'')]
          else [EnsureDir (path_join srcPath ''controllers''),
                EnsureDir (path_join srcPath ''services''),
                EnsureDir (path_join srcPath ''routes'')]) @
         (if truthy (database config)
          then [EnsureDir (path_join srcPath ''models'')] @
               (if orm config = Some ''prisma'' then [EnsureDir (path_join projectPath ''prisma'')] else [])
          else []) @
         (if testing config then [EnsureDir (path_join projectPath ''tests'')] else []))"

section \<open>Resource configuration resolver (utils/prompts.ts)\<close>

text \<open>
  \<open>s.split(',')\<close>, and \<open>trim\<close> on the ASCII white-space characters.
\<close>

fun split_on :: "char \<Rightarrow> string \<Rightarrow> string list" where
  "split_on d [] = [[]]"
| "split_on d (c # cs) =
     (if c = d then [] # split_on d cs
      else (case split_on d cs of [] \<Rightarrow> [[c]] | w # ws \<Rightarrow> (c # w) # ws))"

definition is_space :: "char \<Rightarrow> bool" where
  "is_space c = ((of_char c :: nat) = 32 \<or> (9 \<le> (of_char c :: nat) \<and> (of_char c :: nat) \<le> 13))"

definition trim :: "string \<Rightarrow> string" where
  "trim s = rev (dropWhile is_space (rev (dropWhile is_space s)))"

definition resourceQuestions :: "AddOptions \<Rightarrow> QuestionType list" where
  "resourceQuestions options =
     [question QConfirm ''configureOptions'' [],
      \<lparr>q_type = QList, q_name = ''boilerplateLevel'',
       q_choices = (\<lambda>_. [''full'', ''signatures'', ''minimal'']),
       q_when = (\<lambda>answers. get_bool answers ''configureOptions'' = Some True
                            \<and> \<not> truthy (add_boilerplate options))\<rparr>,
      \<lparr>q_type = QConfirm, q_name = ''includeValidation'', q_choices = (\<lambda>_. []),
       q_when = (\<lambda>answers. get_bool answers ''configureOptions'' = Some True
                            \<and> add_validation options = None)\<rparr>,
      \<lparr>q_type = QInput, q_name = ''customEndpoints'', q_choices = (\<lambda>_. []),
       q_when = (\<lambda>answers. get_bool answers ''configureOptions'' = Some True
                            \<and> add_endpoints options = None)\<rparr>,
      \<lparr>q_type = QConfirm, q_name = ''generateTests'', q_choices = (\<lambda>_. []),
       q_when = (\<lambda>answers. get_bool answers ''configureOptions'' = Some True
                            \<and> add_tests options = None)\<rparr>,
      \<lparr>q_type = QConfirm, q_name = ''withAuth'', q_choices = (\<lambda>_. []),
       q_when = (\<lambda>answers. get_bool answers ''configureOptions'' = Some True
                            \<and> add_withAuth options = None)\<rparr>]"

definition resourceConfig_of :: "string \<Rightarrow> AddOptions \<Rightarrow> Answers \<Rightarrow> ResourceConfig" where
  "resourceConfig_of resourceName options answers =
     (let processedEndpoints =
            (if truthy (get_str answers ''customEndpoints'')
             then filter (\<lambda>s. s \<noteq> [])
                    (map trim (split_on (CHR '','')
                       (case get_str answers ''customEndpoints'' of None \<Rightarrow> [] | Some s \<Rightarrow> s)))
             else (case add_endpoints options of None \<Rightarrow> [] | Some es \<Rightarrow> es))
      in \<lparr>r_name = resourceName,
          generateTests =
            (if add_tests options \<noteq> Some False
             then get_bool answers ''generateTests'' \<noteq> Some False else False),
          r_withAuth =
            (add_withAuth options = Some True \<or> get_bool answers ''withAuth'' = Some True),
          r_boilerplateLevel =
            or_default (or_else (add_boilerplate options) (get_str answers ''boilerplateLevel''))
              ''full'',
          r_includeValidation =
            (if add_validation options \<noteq> Some False
             then get_bool answers ''includeValidation'' \<noteq> Some False else True),
          customEndpoints = Some processedEndpoints\<rparr>)"

definition promptResourceConfig ::
  "string \<Rightarrow> AddOptions \<Rightarrow> User \<Rightarrow> ResourceConfig option \<times> string list" where
  "promptResourceConfig resourceName options u =
     (case prompt u (resourceQuestions options) of
        (None, asked) \<Rightarrow> (None, asked)
      | (Some answers, asked) \<Rightarrow> (Some (resourceConfig_of resourceName options answers), asked))"

section \<open>Commands (commands/create.ts, commands/add.ts)\<close>

text \<open>
  A run of a command: how it ends, what it did to the file system, and the questions it
  asked. A command returns normally, or leaves through \<open>process.exit\<close> with a status, or
  stays blocked on a prompt that never returns. Both commands wrap their body in
  \<open>try\<close>/\<open>catch\<close>, and the handler exits with status 1.
\<close>

datatype ending = Returned | Exited nat | Blocked

record run =
  ending :: ending
  ops :: "fs_op list"
  asked :: "string list"

definition addResource :: "string \<Rightarrow> string \<Rightarrow> AddOptions \<Rightarrow> User \<Rightarrow> FS \<Rightarrow> run" where
  "addResource currentDir resourceName options u fs =
     (let packageJsonPath = path_join currentDir ''package.json'';
          srcPath = path_join currentDir ''src''
      in if \<not> pathExists fs packageJsonPath then \<lparr>ending = Exited 1, ops = [], asked = []\<rparr>
         else if \<not> pathExists fs srcPath then \<lparr>ending = Exited 1, ops = [], asked = []\<rparr>
         else (let resourcePath = path_join (path_join srcPath ''resources'') resourceName
               in if pathExists fs resourcePath then \<lparr>ending = Exited 1, ops = [], asked = []\<rparr>
                  else (case readJson fs packageJsonPath of
                          Inl e \<Rightarrow> \<lparr>ending = Exited 1, ops = [], asked = []\<rparr>
                        | Inr packageJson \<Rightarrow>
                            (let hasTsConfig = pathExists fs (path_join currentDir ''tsconfig.json'');
                                 projectConfig = addResource_projectConfig packageJson hasTsConfig
                             in case promptResourceConfig resourceName
                                       \<lparr>add_tests = add_tests options,
                                        add_withAuth = add_withAuth options,
                                        add_boilerplate = None,
                                        add_validation = None,
                                        add_endpoints = None\<rparr> u of
                                  (None, asked_r) \<Rightarrow>
                                    \<lparr>ending = Blocked, ops = [], asked = asked_r\<rparr>
                                | (Some resourceConfig, asked_r) \<Rightarrow>
                                    \<lparr>ending = Returned,
                                     ops = generateResource projectConfig resourceConfig srcPath,
                                     asked = asked_r\<rparr>))))"

text \<open>
  \<open>createProject\<close> resolves the configuration, checks the target directory, creates it and
  then runs \<open>generateProject\<close>, the package-manager install and the git initialisation.
  Everything after the creation of the directory is the parameter \<open>generation\<close>: given the
  resolved configuration and the project path it yields the effects of those steps and how
  the command ends.
\<close>

definition createProject ::
  "(ProjectConfig \<Rightarrow> string \<Rightarrow> fs_op list \<times> ending) \<Rightarrow>
   string \<Rightarrow> string \<Rightarrow> CreateOptions \<Rightarrow> User \<Rightarrow> FS \<Rightarrow> run" where
  "createProject generation currentDir projectName options u fs =
     (case promptProjectConfig projectName options u of
        (None, asked_c) \<Rightarrow> \<lparr>ending = Blocked, ops = [], asked = asked_c\<rparr>
      | (Some config, asked_c) \<Rightarrow>
          (let projectPath = path_join currentDir projectName
           in if pathExists fs projectPath
              then \<lparr>ending = Exited 1, ops = [], asked = asked_c\<rparr>
              else (case generation config projectPath of
                      (written, how) \<Rightarrow>
                        \<lparr>ending = how, ops = EnsureDir projectPath # written, asked = asked_c\<rparr>)))"

section \<open>Compatibility table and the answers of the full flow\<close>

text \<open>
  The compatibility table of the data model: the adapters that go with each database kind.
  It is also what the adapter question offers (\<open>ormChoices\<close>).
\<close>

definition compatibilityTable :: "(string \<times> string list) list" where
  "compatibilityTable =
     [(''mongodb'', [''mongoose'', ''prisma'']),
      (''postgres'', [''prisma'', ''sequelize'', ''typeorm''])]"

definition compatible :: "string \<Rightarrow> string \<Rightarrow> bool" where
  "compatible d a = (case map_of compatibilityTable d of None \<Rightarrow> False | Some as \<Rightarrow> a \<in> set as)"

text \<open>
  The questions that \<open>promptFullConfiguration\<close> pushes before the database question and
  after the adapter question, the two answers that the database and adapter questions
  leave in the answers object, and the condition under which the adapter question is asked
  with nothing to choose from.
\<close>

definition questionsBeforeDatabase :: "CreateOptions \<Rightarrow> QuestionType list" where
  "questionsBeforeDatabase options =
     (if \<not> truthy (opt_lang options) then [question QList ''language'' [''ts'', ''js'']] else []) @
     (if \<not> truthy (opt_pkgManager options)
      then [question QList ''packageManager'' [''npm'', ''yarn'', ''pnpm'']] else []) @
     (if \<not> truthy (opt_style options)
      then [question QList ''style'' [''resource'', ''layered'']] else []) @
     (if \<not> truthy (opt_boilerplate options)
      then [question QList ''boilerplateLevel'' [''full'', ''signatures'', ''minimal'']] else []) @
     (if opt_validation options = None then [question QConfirm ''includeValidation'' []] else [])"

definition questionsAfterOrm :: "CreateOptions \<Rightarrow> QuestionType list" where
  "questionsAfterOrm options =
     (if opt_withAuth options = None
      then [question QList ''auth'' [''none'', ''jwt'', ''passport'']] else []) @
     (if opt_withJest options = None \<and> opt_tests options \<noteq> Some False
      then [question QConfirm ''testing'' []] else []) @
     (if opt_withEslint options = None then [question QConfirm ''eslint'' []] else []) @
     (if opt_withPrettier options = None then [question QConfirm ''prettier'' []] else []) @
     (if opt_withDocker options = None then [question QConfirm ''docker'' []] else []) @
     (if opt_git options \<noteq> Some False then [question QConfirm ''git'' []] else [])"

definition databaseAnswer :: "CreateOptions \<Rightarrow> User \<Rightarrow> string option" where
  "databaseAnswer options u =
     (if opt_withDb options = None
      then Some (pick u ''database'' [''none'', ''mongodb'', ''postgres'']) else None)"

definition ormAnswer :: "CreateOptions \<Rightarrow> User \<Rightarrow> string option" where
  "ormAnswer options u =
     (let db = or_else (opt_db options) (databaseAnswer options u) in
      if db \<noteq> Some ''none'' \<and> \<not> truthy (opt_orm options)
      then Some (pick u ''orm''
                  (if db = Some ''mongodb'' then [''mongoose'', ''prisma'']
                   else if db = Some ''postgres'' then [''prisma'', ''sequelize'', ''typeorm'']
                   else []))
      else None)"

definition ormUnanswerable :: "CreateOptions \<Rightarrow> User \<Rightarrow> bool" where
  "ormUnanswerable options u =
     (let db = or_else (opt_db options) (databaseAnswer options u) in
      db \<noteq> Some ''none'' \<and> \<not> truthy (opt_orm options)
      \<and> db \<noteq> Some ''mongodb'' \<and> db \<noteq> Some ''postgres'')"

section \<open>Dependency names\<close>

text \<open>
  Every name the dependency functions can put into the runtime map, and every name they
  can put into the development map.
\<close>

definition runtime_names :: "string set" where
  "runtime_names =
     {''express'', ''cors'', ''helmet'', ''express-rate-limit'', ''express-validator'', ''dotenv'',
      ''mongoose'', ''@prisma/client'', ''sequelize'', ''pg'', ''typeorm'', ''reflect-metadata'',
      ''mongodb'', ''jsonwebtoken'', ''bcryptjs'', ''passport'', ''passport-local'',
      ''express-session'', ''swagger-ui-express'', ''swagger-jsdoc'', ''yamljs''}"

definition dev_names :: "string set" where
  "dev_names =
     {''typescript'', ''ts-node'', ''@types/node'', ''@types/express'', ''@types/cors'',
      ''@types/swagger-ui-express'', ''@types/swagger-jsdoc'', ''@types/yamljs'', ''nodemon'',
      ''jest'', ''@types/jest'', ''ts-jest'', ''supertest'', ''@types/supertest'',
      ''eslint'', ''@typescript-eslint/eslint-plugin'', ''@typescript-eslint/parser'',
      ''prettier'', ''eslint-config-prettier'', ''eslint-plugin-prettier'',
      ''@types/mongoose'', ''prisma'', ''@types/sequelize'', ''@types/pg'',
      ''@types/jsonwebtoken'', ''@types/bcryptjs'', ''@types/passport'', ''@types/passport-local'',
      ''@types/express-session''}"

section \<open>Sample inputs\<close>

text \<open>
  Concrete options, users and configurations on which the properties below are evaluated.
  \<open>firstChoiceUser\<close> takes the first value of every list, declines the light-mode
  question and confirms every other question; \<open>secondChoiceUser\<close> does the same but takes
  the second value of a list where there is one. \<open>commanderDefaults\<close> is the options record
  of a bare \<open>create\<close> command: the defaults that the argument parser fills in.
\<close>

definition noOptions :: CreateOptions where
  "noOptions =
     \<lparr>opt_lang = None, opt_pkgManager = None, opt_style = None, opt_withDb = None,
      opt_db = None, opt_orm = None, opt_withAuth = None, opt_auth = None,
      opt_withJest = None, opt_tests = None, opt_withEslint = None, opt_withPrettier = None,
      opt_withDocker = None, opt_git = None, opt_light = None, opt_boilerplate = None,
      opt_validation = None\<rparr>"

definition firstChoiceUser :: User where
  "firstChoiceUser =
     \<lparr>pick = (\<lambda>n cs. case cs of [] \<Rightarrow> [] | c # _ \<Rightarrow> c),
      confirm = (\<lambda>n. n \<noteq> ''light''),
      input = (\<lambda>n. [])\<rparr>"

definition secondChoiceUser :: User where
  "secondChoiceUser =
     \<lparr>pick = (\<lambda>n cs. case cs of [] \<Rightarrow> [] | [c] \<Rightarrow> c | _ # c # _ \<Rightarrow> c),
      confirm = (\<lambda>n. n \<noteq> ''light''),
      input = (\<lambda>n. [])\<rparr>"

definition commanderDefaults :: CreateOptions where
  "commanderDefaults =
     noOptions\<lparr>opt_lang := Some ''ts'', opt_pkgManager := Some ''npm'', opt_style := Some ''resource'',
               opt_boilerplate := Some ''full'', opt_tests := Some True, opt_git := Some True,
               opt_validation := Some True\<rparr>"

definition lightOptions :: CreateOptions where
  "lightOptions =
     noOptions\<lparr>opt_light := Some True, opt_withDb := Some True, opt_db := Some ''mongodb'',
               opt_orm := Some ''mongoose'', opt_withAuth := Some True, opt_withJest := Some True,
               opt_withEslint := Some True, opt_withDocker := Some True,
               opt_boilerplate := Some ''full''\<rparr>"

definition swaggerOn :: SwaggerConfig where
  "swaggerOn = \<lparr>enabled = True, title = ''shop API'', path = ''/docs'', theme = ''default''\<rparr>"

definition prismaConfig :: ProjectConfig where
  "prismaConfig =
     \<lparr>name = ''shop'', language = ''ts'', packageManager = ''npm'', style = ''resource'',
      database = Some ''postgres'', orm = Some ''prisma'', auth = Some ''jwt'',
      testing = True, eslint = True, prettier = True, docker = False, git = True,
      light = False, boilerplateLevel = ''full'', includeValidation = True,
      swagger = Some swaggerOn\<rparr>"

definition prismaNoDbConfig :: ProjectConfig where
  "prismaNoDbConfig = prismaConfig\<lparr>database := None\<rparr>"

definition prismaJsConfig :: ProjectConfig where
  "prismaJsConfig = prismaConfig\<lparr>language := ''js''\<rparr>"






definition bareManifest :: Manifest where
  "bareManifest =
     \<lparr>mf_name = ''shop'', mf_dependencies = Some [(''express'', ''^4.18.2'')],
      mf_devDependencies = None\<rparr>"


definition noAddOptions :: AddOptions where
  "noAddOptions =
     \<lparr>add_tests = None, add_withAuth = None, add_boilerplate = None, add_validation = None,
      add_endpoints = None\<rparr>"

definition emptyFs :: FS where
  "emptyFs = (\<lambda>p. None)"



definition projectFs :: FS where
  "projectFs =
     (\<lambda>p. if p = ''/work/package.json'' then Some (JsonFile bareManifest)
          else if p = ''/work/src'' then Some Directory
          else None)"

definition noGeneration :: "ProjectConfig \<Rightarrow> string \<Rightarrow> fs_op list \<times> ending" where
  "noGeneration config projectPath = ([], Returned)"

definition explicitPairOptions :: CreateOptions where
  "explicitPairOptions =
     commanderDefaults\<lparr>opt_withDb := Some True, opt_db := Some ''mongodb'',
                       opt_orm := Some ''sequelize''\<rparr>"

definition fullFlowOptions :: CreateOptions where
  "fullFlowOptions = commanderDefaults"

definition adapterOnlyOptions :: CreateOptions where
  "adapterOnlyOptions = commanderDefaults\<lparr>opt_orm := Some ''prisma''\<rparr>"

definition postResource :: ResourceConfig where
  "postResource =
     \<lparr>r_name = ''post'', generateTests = True, r_withAuth = True, r_boilerplateLevel = ''full'',
      r_includeValidation = True, customEndpoints = Some [''publish'', ''archive'']\<rparr>"

definition orderResource :: ResourceConfig where
  "orderResource =
     \<lparr>r_name = ''order'', generateTests = False, r_withAuth = False,
      r_boilerplateLevel = ''signatures'', r_includeValidation = True, customEndpoints = Some []\<rparr>"

definition memoryConfig :: ProjectConfig where
  "memoryConfig = prismaConfig\<lparr>database := None, orm := None\<rparr>"

definition withDbOnlyOptions :: CreateOptions where
  "withDbOnlyOptions = commanderDefaults\<lparr>opt_withDb := Some True\<rparr>"

definition scenarioBOptions :: CreateOptions where
  "scenarioBOptions =
     commanderDefaults\<lparr>opt_withDb := Some True, opt_db := Some ''postgres'',
                       opt_orm := Some ''prisma''\<rparr>"

section \<open>Properties\<close>

subsection \<open>Light mode\<close>

text \<open>
  Claim C2. Whenever the options carry \<open>light = true\<close>, the resolver returns a
  configuration with testing, eslint, prettier and docker off, no database, no adapter,
  no auth, boilerplate level \<open>minimal\<close> and validation off, whatever the other options
  and whatever the user would answer; and it asks no question at all.
\<close>

theorem light_mode_exclusive:
  assumes "opt_light options = Some True"
  shows "\<exists>config. promptProjectConfig projectName options u = (Some config, [])
       \<and> testing config = False
       \<and> eslint config = False
       \<and> prettier config = False
       \<and> docker config = False
       \<and> database config = None
       \<and> orm config = None
       \<and> auth config = None
       \<and> boilerplateLevel config = ''minimal''
       \<and> includeValidation config = False"
proof -
  have "promptProjectConfig projectName options u =
          (Some (createLightConfig projectName options), [])"
    using assms by (simp add: promptProjectConfig_def promptLightMode_def)
  then show ?thesis
    by (simp add: createLightConfig_def)
qed

theorem light_mode_exclusive_witness:
  "opt_light lightOptions = Some True
   \<and> (\<exists>config. promptProjectConfig ''shop'' lightOptions firstChoiceUser = (Some config, [])
         \<and> testing config = False
         \<and> eslint config = False
         \<and> prettier config = False
         \<and> docker config = False
         \<and> database config = None
         \<and> orm config = None
         \<and> auth config = None
         \<and> boilerplateLevel config = ''minimal''
         \<and> includeValidation config = False)"
proof -
  have light: "opt_light lightOptions = Some True"
    by (simp add: lightOptions_def noOptions_def)
  show ?thesis
    using light light_mode_exclusive [OF light, of "''shop''" firstChoiceUser] by simp
qed

subsection \<open>Dependency matrix\<close>

lemma keys_update: "keys (AList.update k v r) = insert k (keys r)"
  by (induction r) (auto simp: keys_def)

lemma keys_assign_all: "keys (assign_all kvs r) = fst ` set kvs \<union> keys r"
  by (induction kvs arbitrary: r) (auto simp: assign_all_def keys_update)

lemma keys_set_all: "keys (set_all ks v r) = set ks \<union> keys r"
  by (induction ks arbitrary: r) (auto simp: set_all_def keys_update)

lemma keys_Nil: "keys [] = {}"
  by (simp add: keys_def)

lemma db_runtime_names:
  "set (dd_dependencies (getDatabaseDependencies d o'))
     \<subseteq> {''mongoose'', ''@prisma/client'', ''sequelize'', ''pg'', ''typeorm'', ''reflect-metadata'', ''mongodb''}"
  by (auto simp add: getDatabaseDependencies_def)

lemma db_dev_names:
  "set (dd_devDependencies (getDatabaseDependencies d o'))
     \<subseteq> {''@types/mongoose'', ''prisma'', ''@types/sequelize'', ''@types/pg''}"
  by (auto simp add: getDatabaseDependencies_def)

lemma auth_runtime_names:
  "set (dd_dependencies (getAuthDependencies a))
     \<subseteq> {''jsonwebtoken'', ''bcryptjs'', ''passport'', ''passport-local'', ''express-session''}"
  by (simp add: getAuthDependencies_def)

lemma auth_dev_names:
  "set (dd_devDependencies (getAuthDependencies a))
     \<subseteq> {''@types/jsonwebtoken'', ''@types/bcryptjs'', ''@types/passport'', ''@types/passport-local'', ''@types/express-session''}"
  by (simp add: getAuthDependencies_def)

lemma keys_generateDependencies:
  assumes "swagger config = Some sw"
  shows "\<exists>deps. generateDependencies config = Inr deps \<and>
     keys deps =
       {''express'', ''cors'', ''helmet'', ''express-rate-limit'', ''express-validator'', ''dotenv''}
       \<union> set (dd_dependencies (getDatabaseDependencies (database config) (orm config)))
       \<union> set (dd_dependencies (getAuthDependencies (auth config)))
       \<union> (if enabled sw then {''swagger-ui-express'', ''swagger-jsdoc'', ''yamljs''} else {})"
  using assms
  by (auto simp add: generateDependencies_def Let_def keys_assign_all keys_set_all keys_Nil)

lemma keys_devDependencies_rest:
  "keys (devDependencies_rest config r) \<subseteq>
     keys r \<union> {''jest'', ''@types/jest'', ''ts-jest'', ''supertest'', ''@types/supertest'',
       ''eslint'', ''@typescript-eslint/eslint-plugin'', ''@typescript-eslint/parser'',
       ''prettier'', ''eslint-config-prettier'', ''eslint-plugin-prettier''}
     \<union> set (dd_devDependencies (getDatabaseDependencies (database config) (orm config)))
     \<union> set (dd_devDependencies (getAuthDependencies (auth config)))"
  by (auto simp add: devDependencies_rest_def Let_def keys_assign_all keys_set_all)

lemma dev_rest_has_db:
  "set (dd_devDependencies (getDatabaseDependencies (database config) (orm config)))
     \<subseteq> keys (devDependencies_rest config r)"
  by (auto simp add: devDependencies_rest_def Let_def keys_assign_all keys_set_all)

lemma names_disjoint: "runtime_names \<inter> dev_names = {}"
  unfolding runtime_names_def dev_names_def by simp

lemma generateDependencies_names:
  assumes a: "generateDependencies config = Inr deps"
  shows "keys deps \<subseteq> runtime_names"
proof -
  from a obtain sw where sw: "swagger config = Some sw"
    by (cases "swagger config") (auto simp: generateDependencies_def Let_def)
  from keys_generateDependencies [OF sw] a
  have eq: "keys deps =
       {''express'', ''cors'', ''helmet'', ''express-rate-limit'', ''express-validator'', ''dotenv''}
       \<union> set (dd_dependencies (getDatabaseDependencies (database config) (orm config)))
       \<union> set (dd_dependencies (getAuthDependencies (auth config)))
       \<union> (if enabled sw then {''swagger-ui-express'', ''swagger-jsdoc'', ''yamljs''} else {})"
    by auto
  have A: "{''express'', ''cors'', ''helmet'', ''express-rate-limit'', ''express-validator'', ''dotenv''} \<subseteq> runtime_names"
    by (simp add: runtime_names_def)
  have "{''mongoose'', ''@prisma/client'', ''sequelize'', ''pg'', ''typeorm'', ''reflect-metadata'', ''mongodb''} \<subseteq> runtime_names"
    by (simp add: runtime_names_def)
  then have B: "set (dd_dependencies (getDatabaseDependencies (database config) (orm config))) \<subseteq> runtime_names"
    by (rule subset_trans [OF db_runtime_names])
  have "{''jsonwebtoken'', ''bcryptjs'', ''passport'', ''passport-local'', ''express-session''} \<subseteq> runtime_names"
    by (simp add: runtime_names_def)
  then have C: "set (dd_dependencies (getAuthDependencies (auth config))) \<subseteq> runtime_names"
    by (rule subset_trans [OF auth_runtime_names])
  have "{''swagger-ui-express'', ''swagger-jsdoc'', ''yamljs''} \<subseteq> runtime_names"
    by (simp add: runtime_names_def)
  then have D: "(if enabled sw then {''swagger-ui-express'', ''swagger-jsdoc'', ''yamljs''} else {}) \<subseteq> runtime_names"
    by (cases "enabled sw") simp_all
  show ?thesis
    unfolding eq by (intro Un_least A B C D)
qed

lemma devDependencies_rest_names:
  assumes r: "keys r \<subseteq> dev_names"
  shows "keys (devDependencies_rest config r) \<subseteq> dev_names"
proof -
  have base: "{''jest'', ''@types/jest'', ''ts-jest'', ''supertest'', ''@types/supertest'',
       ''eslint'', ''@typescript-eslint/eslint-plugin'', ''@typescript-eslint/parser'',
       ''prettier'', ''eslint-config-prettier'', ''eslint-plugin-prettier''} \<subseteq> dev_names"
    by (simp add: dev_names_def)
  have "{''@types/mongoose'', ''prisma'', ''@types/sequelize'', ''@types/pg''} \<subseteq> dev_names"
    by (simp add: dev_names_def)
  then have db: "set (dd_devDependencies (getDatabaseDependencies (database config) (orm config))) \<subseteq> dev_names"
    by (rule subset_trans [OF db_dev_names])
  have "{''@types/jsonwebtoken'', ''@types/bcryptjs'', ''@types/passport'', ''@types/passport-local'', ''@types/express-session''} \<subseteq> dev_names"
    by (simp add: dev_names_def)
  then have au: "set (dd_devDependencies (getAuthDependencies (auth config))) \<subseteq> dev_names"
    by (rule subset_trans [OF auth_dev_names])
  show ?thesis
    by (rule subset_trans [OF keys_devDependencies_rest]) (intro Un_least r base db au)
qed

lemma generateDevDependencies_names:
  assumes a: "generateDevDependencies config = Inr dev"
  shows "keys dev \<subseteq> dev_names"
proof (cases "language config = ''ts''")
  case True
  with a obtain sw where sw: "swagger config = Some sw"
    by (cases "swagger config") (auto simp: generateDevDependencies_def Let_def)
  let ?r0 = "assign_all
                    [(''typescript'', ''^5.1.6''),
                     (''ts-node'', ''^10.9.1''),
                     (''@types/node'', ''^20.5.0''),
                     (''@types/express'', ''^4.17.17''),
                     (''@types/cors'', ''^2.8.13'')] []"
  let ?r = "if enabled sw
                           then assign_all
                                  [(''@types/swagger-ui-express'', ''^4.1.3''),
                                   (''@types/swagger-jsdoc'', ''^6.0.1''),
                                   (''@types/yamljs'', ''^0.2.31'')] ?r0
                           else ?r0"
  have dev: "dev = devDependencies_rest config ?r"
    using a True sw by (simp add: generateDevDependencies_def Let_def)
  have "keys ?r \<subseteq> dev_names"
    by (simp add: keys_assign_all keys_Nil dev_names_def)
  then show ?thesis
    unfolding dev by (rule devDependencies_rest_names)
next
  case False
  with a have dev: "dev = devDependencies_rest config (assign_all [(''nodemon'', ''^3.0.1'')] [])"
    by (simp add: generateDevDependencies_def)
  have "keys (assign_all [(''nodemon'', ''^3.0.1'')] []) \<subseteq> dev_names"
    by (simp add: keys_assign_all keys_Nil dev_names_def)
  then show ?thesis
    unfolding dev by (rule devDependencies_rest_names)
qed

lemma manifest_names_disjoint:
  assumes "generatePackageJson config = Inr pj"
  shows "keys (pj_dependencies pj) \<inter> keys (pj_devDependencies pj) = {}"
proof -
  from assms obtain deps dev where
    d: "generateDependencies config = Inr deps" and
    v: "(if language config = ''ts'' then generateDevDependencies config else Inr []) = Inr dev" and
    pj: "pj_dependencies pj = deps" "pj_devDependencies pj = dev"
    by (auto simp: generatePackageJson_def split: sum.splits)
  have "keys dev \<subseteq> dev_names"
  proof (cases "language config = ''ts''")
    case True
    with v show ?thesis by (simp add: generateDevDependencies_names)
  next
    case False
    with v show ?thesis by (auto simp: keys_Nil)
  qed
  with generateDependencies_names [OF d] names_disjoint show ?thesis
    unfolding pj by blast
qed

text \<open>
  On a configuration that carries the documentation sub-record (flag on or off), whatever
  the database, adapter and auth kinds and the dialect, the dependency computation returns
  a map; the map has the baseline names \<open>express\<close>, \<open>cors\<close>, \<open>helmet\<close>,
  \<open>express-rate-limit\<close> and \<open>dotenv\<close>; and for \<open>postgres\<close> with \<open>prisma\<close> it has
  \<open>@prisma/client\<close> and not \<open>mongoose\<close>.
\<close>

lemma dependency_matrix_with_documentation:
  assumes "swagger config = Some sw"
  shows "\<exists>deps. generateDependencies config = Inr deps
           \<and> {''express'', ''cors'', ''helmet'', ''express-rate-limit'', ''dotenv''} \<subseteq> keys deps
           \<and> (database config = Some ''postgres'' \<and> orm config = Some ''prisma''
                \<longrightarrow> ''@prisma/client'' \<in> keys deps \<and> ''mongoose'' \<notin> keys deps)"
proof -
  from keys_generateDependencies [OF assms] obtain deps where
    d: "generateDependencies config = Inr deps" and
    k: "keys deps =
       {''express'', ''cors'', ''helmet'', ''express-rate-limit'', ''express-validator'', ''dotenv''}
       \<union> set (dd_dependencies (getDatabaseDependencies (database config) (orm config)))
       \<union> set (dd_dependencies (getAuthDependencies (auth config)))
       \<union> (if enabled sw then {''swagger-ui-express'', ''swagger-jsdoc'', ''yamljs''} else {})"
    by blast
  have base: "{''express'', ''cors'', ''helmet'', ''express-rate-limit'', ''dotenv''} \<subseteq> keys deps"
    unfolding k by simp
  have auth_no_mongoose: "''mongoose'' \<notin> set (dd_dependencies (getAuthDependencies (auth config)))"
    by (simp add: getAuthDependencies_def)
  have prisma: "''@prisma/client'' \<in> keys deps \<and> ''mongoose'' \<notin> keys deps"
    if "database config = Some ''postgres''" "orm config = Some ''prisma''"
    unfolding k using that auth_no_mongoose
    by (simp add: getDatabaseDependencies_def truthy_def)
  from d base prisma show ?thesis by blast
qed

lemma dependency_matrix_on_prisma_sample:
  "swagger prismaConfig = Some swaggerOn
   \<and> (\<exists>deps. generateDependencies prismaConfig = Inr deps
         \<and> {''express'', ''cors'', ''helmet'', ''express-rate-limit'', ''dotenv''} \<subseteq> keys deps
         \<and> ''@prisma/client'' \<in> keys deps \<and> ''mongoose'' \<notin> keys deps)"
proof -
  have sw: "swagger prismaConfig = Some swaggerOn"
    and db: "database prismaConfig = Some ''postgres''"
    and orm: "orm prismaConfig = Some ''prisma''"
    by (simp_all add: prismaConfig_def)
  from dependency_matrix_with_documentation [OF sw] db orm sw show ?thesis by blast
qed

subsection \<open>Manifest\<close>

text \<open>
  Claim C5, as stated, fails. With the adapter \<open>prisma\<close> set and no database kind, the
  development map of the manifest has no \<open>prisma\<close> entry (\<open>getDatabaseDependencies\<close>
  returns nothing without a database); and for the \<open>js\<close> dialect the development
  map is the empty object whatever the adapter.
\<close>

theorem adapter_dev_dependency_missing:
  "orm prismaNoDbConfig = Some ''prisma''
   \<and> (\<exists>pj. generatePackageJson prismaNoDbConfig = Inr pj \<and> ''prisma'' \<notin> keys (pj_devDependencies pj))
   \<and> orm prismaJsConfig = Some ''prisma''
   \<and> (\<exists>pj. generatePackageJson prismaJsConfig = Inr pj \<and> pj_devDependencies pj = [])"
proof -
  have a: "orm prismaNoDbConfig = Some ''prisma''" "orm prismaJsConfig = Some ''prisma''"
    by (simp_all add: prismaNoDbConfig_def prismaJsConfig_def prismaConfig_def)
  have sw: "swagger prismaNoDbConfig = Some swaggerOn" "swagger prismaJsConfig = Some swaggerOn"
    by (simp_all add: prismaNoDbConfig_def prismaJsConfig_def prismaConfig_def)
  have js: "language prismaJsConfig = ''js''" and ts: "language prismaNoDbConfig = ''ts''"
    by (simp_all add: prismaNoDbConfig_def prismaJsConfig_def prismaConfig_def)
  from keys_generateDependencies [OF sw(2)] obtain deps where
    d: "generateDependencies prismaJsConfig = Inr deps" by blast
  have "generatePackageJson prismaJsConfig = Inr
           \<lparr>pj_name = name prismaJsConfig, pj_version = ''1.0.0'', pj_description = [],
            pj_main = ''src/server.js'', pj_scripts = generateScripts prismaJsConfig,
            pj_keywords = [], pj_author = [], pj_license = ''ISC'',
            pj_dependencies = deps, pj_devDependencies = []\<rparr>"
    by (simp add: generatePackageJson_def d js)
  then have b: "\<exists>pj. generatePackageJson prismaJsConfig = Inr pj \<and> pj_devDependencies pj = []"
    by simp
  from keys_generateDependencies [OF sw(1)] obtain deps' where
    d': "generateDependencies prismaNoDbConfig = Inr deps'" by blast
  have nodb: "getDatabaseDependencies (database prismaNoDbConfig) (orm prismaNoDbConfig)
     = \<lparr>dd_dependencies = [], dd_devDependencies = []\<rparr>"
    by (simp add: prismaNoDbConfig_def getDatabaseDependencies_def truthy_def)
  have au: "auth prismaNoDbConfig = Some ''jwt''"
    by (simp add: prismaNoDbConfig_def prismaConfig_def)
  have fl: "testing prismaNoDbConfig" "eslint prismaNoDbConfig" "prettier prismaNoDbConfig"
    by (simp_all add: prismaNoDbConfig_def prismaConfig_def)
  obtain dev where dev: "generateDevDependencies prismaNoDbConfig = Inr dev"
    and nk: "''prisma'' \<notin> keys dev"
    by (simp add: generateDevDependencies_def ts sw swaggerOn_def devDependencies_rest_def Let_def
         nodb au fl getAuthDependencies_def truthy_def keys_assign_all keys_set_all keys_Nil)
  have "generatePackageJson prismaNoDbConfig = Inr
           \<lparr>pj_name = name prismaNoDbConfig, pj_version = ''1.0.0'', pj_description = [],
            pj_main = ''dist/server.js'', pj_scripts = generateScripts prismaNoDbConfig,
            pj_keywords = [], pj_author = [], pj_license = ''ISC'',
            pj_dependencies = deps', pj_devDependencies = dev\<rparr>"
    by (simp add: generatePackageJson_def d' dev ts)
  with nk have c: "\<exists>pj. generatePackageJson prismaNoDbConfig = Inr pj \<and> ''prisma'' \<notin> keys (pj_devDependencies pj)"
    by simp
  from a b c show ?thesis by blast
qed

text \<open>
  Claim C5, amended. For every configuration of the \<open>ts\<close> dialect that carries the
  documentation sub-record and a database kind other than \<open>none\<close>, the manifest is
  produced and its development map has the adapter's own development name:
  \<open>@types/mongoose\<close> for \<open>mongoose\<close>, \<open>prisma\<close> for \<open>prisma\<close>, \<open>@types/sequelize\<close> for
  \<open>sequelize\<close>. And whenever a manifest is produced, for any configuration, no name is
  in both its runtime map and its development map.
\<close>

theorem manifest_dev_dependencies:
  "(language config = ''ts'' \<and> swagger config = Some sw
      \<and> truthy (database config) \<and> database config \<noteq> Some ''none''
    \<longrightarrow> (\<exists>pj. generatePackageJson config = Inr pj
           \<and> (orm config = Some ''mongoose'' \<longrightarrow> ''@types/mongoose'' \<in> keys (pj_devDependencies pj))
           \<and> (orm config = Some ''prisma'' \<longrightarrow> ''prisma'' \<in> keys (pj_devDependencies pj))
           \<and> (orm config = Some ''sequelize'' \<longrightarrow> ''@types/sequelize'' \<in> keys (pj_devDependencies pj))))
   \<and> (generatePackageJson config = Inr pj'
    \<longrightarrow> keys (pj_dependencies pj') \<inter> keys (pj_devDependencies pj') = {})"
proof (intro conjI impI)
  assume h: "language config = ''ts'' \<and> swagger config = Some sw
      \<and> truthy (database config) \<and> database config \<noteq> Some ''none''"
  then have ts: "language config = ''ts''" and sw: "swagger config = Some sw"
    and db: "truthy (database config)" "database config \<noteq> Some ''none''"
    by simp_all
  from keys_generateDependencies [OF sw] obtain deps where
    d: "generateDependencies config = Inr deps" by blast
  obtain dev where dev: "generateDevDependencies config = Inr dev"
    and has: "set (dd_devDependencies (getDatabaseDependencies (database config) (orm config))) \<subseteq> keys dev"
    using dev_rest_has_db by (simp add: generateDevDependencies_def ts sw Let_def)
  have pj: "generatePackageJson config = Inr
           \<lparr>pj_name = name config, pj_version = ''1.0.0'', pj_description = [],
            pj_main = ''dist/server.js'', pj_scripts = generateScripts config,
            pj_keywords = [], pj_author = [], pj_license = ''ISC'',
            pj_dependencies = deps, pj_devDependencies = dev\<rparr>"
    by (simp add: generatePackageJson_def d dev ts)
  have m: "''@types/mongoose'' \<in> keys dev" if "orm config = Some ''mongoose''"
    using has that db by (simp add: getDatabaseDependencies_def)
  have p: "''prisma'' \<in> keys dev" if "orm config = Some ''prisma''"
    using has that db by (simp add: getDatabaseDependencies_def)
  have s: "''@types/sequelize'' \<in> keys dev" if "orm config = Some ''sequelize''"
    using has that db by (simp add: getDatabaseDependencies_def)
  from pj m p s
  show "\<exists>pj. generatePackageJson config = Inr pj
           \<and> (orm config = Some ''mongoose'' \<longrightarrow> ''@types/mongoose'' \<in> keys (pj_devDependencies pj))
           \<and> (orm config = Some ''prisma'' \<longrightarrow> ''prisma'' \<in> keys (pj_devDependencies pj))
           \<and> (orm config = Some ''sequelize'' \<longrightarrow> ''@types/sequelize'' \<in> keys (pj_devDependencies pj))"
    by simp
next
  assume "generatePackageJson config = Inr pj'"
  then show "keys (pj_dependencies pj') \<inter> keys (pj_devDependencies pj') = {}"
    by (rule manifest_names_disjoint)
qed

theorem manifest_dev_dependencies_witness:
  "language prismaConfig = ''ts'' \<and> swagger prismaConfig = Some swaggerOn
   \<and> truthy (database prismaConfig) \<and> database prismaConfig \<noteq> Some ''none''
   \<and> orm prismaConfig = Some ''prisma''
   \<and> (\<exists>pj. generatePackageJson prismaConfig = Inr pj
         \<and> ''prisma'' \<in> keys (pj_devDependencies pj)
         \<and> keys (pj_dependencies pj) \<inter> keys (pj_devDependencies pj) = {})"
proof -
  have h: "language prismaConfig = ''ts''" "swagger prismaConfig = Some swaggerOn"
    "truthy (database prismaConfig)" "database prismaConfig \<noteq> Some ''none''"
    "orm prismaConfig = Some ''prisma''"
    by (simp_all add: prismaConfig_def truthy_def)
  from manifest_dev_dependencies [of prismaConfig swaggerOn] h
  obtain pj where pj: "generatePackageJson prismaConfig = Inr pj"
    and p: "''prisma'' \<in> keys (pj_devDependencies pj)"
    by blast
  from manifest_dev_dependencies [of prismaConfig swaggerOn pj] pj
  have "keys (pj_dependencies pj) \<inter> keys (pj_devDependencies pj) = {}"
    by blast
  with h pj p show ?thesis by blast
qed

subsection \<open>Introspection\<close>

text \<open>
  What the detectors see of a name in the merged map: the entry of \<open>devDependencies\<close> if
  there is one, else the entry of \<open>dependencies\<close> (of a repeated key the last entry counts),
  and the name is seen when that version is not the empty string.
\<close>

lemma map_of_assign_all:
  "map_of (assign_all kvs r) k =
     (case map_of (rev kvs) k of Some v \<Rightarrow> Some v | None \<Rightarrow> map_of r k)"
proof (induction kvs arbitrary: r)
  case Nil
  show ?case by (simp add: assign_all_def)
next
  case (Cons kv kvs)
  have "assign_all (kv # kvs) r = assign_all kvs (AList.update (fst kv) (snd kv) r)"
    by (simp add: assign_all_def)
  then show ?case
    using Cons.IH [of "AList.update (fst kv) (snd kv) r"]
    by (cases kv) (auto simp: update_conv' map_add_def split: option.splits)
qed

lemma has_dep_manifestDeps:
  "has_dep (manifestDeps packageJson) k =
     truthy (case map_of (rev (case mf_devDependencies packageJson of None \<Rightarrow> [] | Some y \<Rightarrow> y)) k of
               Some v \<Rightarrow> Some v
             | None \<Rightarrow>
                 map_of (rev (case mf_dependencies packageJson of None \<Rightarrow> [] | Some x \<Rightarrow> x)) k)"
  by (simp add: has_dep_def manifestDeps_def spread_def map_of_assign_all split: option.splits)





text \<open>
  Claim C10. The configuration that \<open>addResource\<close> synthesizes has package manager
  \<open>npm\<close>, style \<open>resource\<close>, boilerplate level \<open>full\<close>, validation on, and eslint,
  prettier, docker, git and light all off, for every manifest and whether or not
  \<open>tsconfig.json\<close> exists: nothing of the original choices for these fields is read.
\<close>

theorem add_resource_fixed_fields:
  "packageManager (addResource_projectConfig packageJson hasTsConfig) = ''npm''
   \<and> style (addResource_projectConfig packageJson hasTsConfig) = ''resource''
   \<and> boilerplateLevel (addResource_projectConfig packageJson hasTsConfig) = ''full''
   \<and> includeValidation (addResource_projectConfig packageJson hasTsConfig) = True
   \<and> eslint (addResource_projectConfig packageJson hasTsConfig) = False
   \<and> prettier (addResource_projectConfig packageJson hasTsConfig) = False
   \<and> docker (addResource_projectConfig packageJson hasTsConfig) = False
   \<and> git (addResource_projectConfig packageJson hasTsConfig) = False
   \<and> light (addResource_projectConfig packageJson hasTsConfig) = False"
  by (simp add: addResource_projectConfig_def)

theorem add_resource_fixed_fields_witness:
  "boilerplateLevel (createLightConfig ''shop'' lightOptions) = ''minimal''
   \<and> packageManager (addResource_projectConfig bareManifest False) = ''npm''
   \<and> style (addResource_projectConfig bareManifest False) = ''resource''
   \<and> boilerplateLevel (addResource_projectConfig bareManifest False) = ''full''
   \<and> includeValidation (addResource_projectConfig bareManifest False) = True
   \<and> eslint (addResource_projectConfig bareManifest False) = False
   \<and> prettier (addResource_projectConfig bareManifest False) = False
   \<and> docker (addResource_projectConfig bareManifest False) = False
   \<and> git (addResource_projectConfig bareManifest False) = False
   \<and> light (addResource_projectConfig bareManifest False) = False"
  using add_resource_fixed_fields [of bareManifest False]
  by (simp add: createLightConfig_def)

subsection \<open>Resolver: database and adapter\<close>

text \<open>
  The full flow is a list of questions around the two questions \<open>database\<close> and \<open>orm\<close>.
  Every question other than \<open>orm\<close> is always answered; the \<open>orm\<close> question, when it is
  asked, is answered exactly when it offers a value.
\<close>

lemma fullQuestions_split:
  "fullQuestions options =
     questionsBeforeDatabase options @
     (if opt_withDb options = None
      then [question QList ''database'' [''none'', ''mongodb'', ''postgres'']] else []) @
     [\<lparr>q_type = QList, q_name = ''orm'',
       q_choices = ormChoices options, q_when = ormWhen options\<rparr>] @
     questionsAfterOrm options"
  by (simp add: fullQuestions_def questionsBeforeDatabase_def questionsAfterOrm_def)

lemma fst_prompt_from_append:
  "fst (prompt_from u (qs1 @ qs2) a) =
     (case fst (prompt_from u qs1 a) of None \<Rightarrow> None | Some a1 \<Rightarrow> fst (prompt_from u qs2 a1))"
  by (induction qs1 arbitrary: a) (simp_all add: case_prod_unfold split: option.splits)

lemma prompt_from_answerable:
  assumes "\<And>q b. q \<in> set qs \<Longrightarrow> ask u q b \<noteq> None"
  shows "\<exists>a'. fst (prompt_from u qs a) = Some a'
            \<and> (\<forall>n. n \<notin> q_name ` set qs \<longrightarrow> map_of a' n = map_of a n)"
  using assms
proof (induction qs arbitrary: a)
  case Nil
  show ?case by simp
next
  case (Cons q qs)
  have rest: "\<exists>a'. fst (prompt_from u qs b) = Some a'
            \<and> (\<forall>n. n \<notin> q_name ` set qs \<longrightarrow> map_of a' n = map_of b n)" for b
    using Cons.IH [of b] Cons.prems by simp
  show ?case
  proof (cases "q_when q a")
    case False
    with rest [of a] show ?thesis by auto
  next
    case True
    from Cons.prems [of q a] obtain v where v: "ask u q a = Some v" by auto
    from rest [of "AList.update (q_name q) v a"] obtain a' where
      a': "fst (prompt_from u qs (AList.update (q_name q) v a)) = Some a'"
      "\<forall>n. n \<notin> q_name ` set qs \<longrightarrow> map_of a' n = map_of (AList.update (q_name q) v a) n"
      by blast
    from True v a' show ?thesis
      by (simp add: update_conv' case_prod_unfold)
  qed
qed

lemma before_answerable:
  "q \<in> set (questionsBeforeDatabase options) \<Longrightarrow> ask u q b \<noteq> None"
  by (auto simp add: questionsBeforeDatabase_def question_def ask_def split: if_splits)

lemma after_answerable:
  "q \<in> set (questionsAfterOrm options) \<Longrightarrow> ask u q b \<noteq> None"
  by (auto simp add: questionsAfterOrm_def question_def ask_def split: if_splits)

lemma before_names:
  "''database'' \<notin> q_name ` set (questionsBeforeDatabase options)"
  "''orm'' \<notin> q_name ` set (questionsBeforeDatabase options)"
  by (auto simp add: questionsBeforeDatabase_def question_def)

lemma after_names:
  "''database'' \<notin> q_name ` set (questionsAfterOrm options)"
  "''orm'' \<notin> q_name ` set (questionsAfterOrm options)"
  by (auto simp add: questionsAfterOrm_def question_def)

text \<open>
  The interview of the full flow does not complete exactly when the \<open>orm\<close> question is
  asked for a database that is neither \<open>mongodb\<close> nor \<open>postgres\<close>; when it completes,
  the two answers are the ones computed by \<open>databaseAnswer\<close> and \<open>ormAnswer\<close>.
\<close>

lemma full_answers:
  "fst (prompt u (fullQuestions options)) = None \<longleftrightarrow> ormUnanswerable options u"
  "\<not> ormUnanswerable options u \<Longrightarrow>
     \<exists>answers. fst (prompt u (fullQuestions options)) = Some answers
        \<and> get_str answers ''database'' = databaseAnswer options u
        \<and> get_str answers ''orm'' = ormAnswer options u"
proof -
  let ?dbq = "(if opt_withDb options = None
      then [question QList ''database'' [''none'', ''mongodb'', ''postgres'']] else [])"
  let ?ormq = "\<lparr>q_type = QList, q_name = ''orm'',
       q_choices = ormChoices options, q_when = ormWhen options\<rparr>"
  from prompt_from_answerable [of "questionsBeforeDatabase options" u "[]"] before_answerable
  obtain a1 where a1: "fst (prompt_from u (questionsBeforeDatabase options) []) = Some a1"
    and fr1: "\<forall>n. n \<notin> q_name ` set (questionsBeforeDatabase options) \<longrightarrow> map_of a1 n = map_of [] n"
    by blast
  have a1_db: "map_of a1 ''database'' = None" and a1_orm: "map_of a1 ''orm'' = None"
    using fr1 before_names by simp_all
  obtain a2 where a2: "fst (prompt_from u ?dbq a1) = Some a2"
    and a2_db: "get_str a2 ''database'' = databaseAnswer options u"
    and a2_orm: "map_of a2 ''orm'' = None"
    using a1_db a1_orm
    by (cases "opt_withDb options = None")
       (simp_all add: get_str_def databaseAnswer_def question_def ask_def update_conv')
  have w: "ormWhen options a2 \<and> ormChoices options a2 = [] \<longleftrightarrow> ormUnanswerable options u"
    using a2_db by (auto simp add: ormWhen_def ormChoices_def ormUnanswerable_def Let_def)
  have split3: "fst (prompt u (fullQuestions options)) =
      (case fst (prompt_from u [?ormq] a2) of
         None \<Rightarrow> None
       | Some a3 \<Rightarrow> fst (prompt_from u (questionsAfterOrm options) a3))"
    by (simp only: prompt_def fullQuestions_split fst_prompt_from_append a1 a2 option.case)
  show "fst (prompt u (fullQuestions options)) = None \<longleftrightarrow> ormUnanswerable options u"
  proof (cases "ormUnanswerable options u")
    case True
    with w have "fst (prompt_from u [?ormq] a2) = None"
      by (simp add: ask_def)
    with True show ?thesis by (simp add: split3)
  next
    case False
    with w obtain a3 where a3: "fst (prompt_from u [?ormq] a2) = Some a3"
      by (cases "ormWhen options a2") (auto simp add: ask_def)
    from prompt_from_answerable [of "questionsAfterOrm options" u a3] after_answerable
    obtain a4 where "fst (prompt_from u (questionsAfterOrm options) a3) = Some a4" by blast
    with False a3 show ?thesis by (simp add: split3)
  qed
  show "\<exists>answers. fst (prompt u (fullQuestions options)) = Some answers
        \<and> get_str answers ''database'' = databaseAnswer options u
        \<and> get_str answers ''orm'' = ormAnswer options u"
    if nb: "\<not> ormUnanswerable options u"
  proof -
    obtain a3 where a3: "fst (prompt_from u [?ormq] a2) = Some a3"
      and a3_db: "get_str a3 ''database'' = databaseAnswer options u"
      and a3_orm: "get_str a3 ''orm'' = ormAnswer options u"
    proof (cases "ormWhen options a2")
      case False
      then have "fst (prompt_from u [?ormq] a2) = Some a2" by simp
      moreover have "get_str a2 ''orm'' = ormAnswer options u"
        using False a2_db a2_orm
        by (simp add: get_str_def ormWhen_def ormAnswer_def Let_def)
      ultimately show ?thesis using that a2_db by blast
    next
      case True
      with w nb have c: "ormChoices options a2 \<noteq> []" by blast
      let ?a3 = "AList.update ''orm'' (AStr (pick u ''orm'' (ormChoices options a2))) a2"
      have "fst (prompt_from u [?ormq] a2) = Some ?a3"
        using True c by (simp add: ask_def)
      moreover have "get_str ?a3 ''database'' = databaseAnswer options u"
        using a2_db by (simp add: get_str_def update_conv')
      moreover have "get_str ?a3 ''orm'' = ormAnswer options u"
        using True a2_db
        by (simp add: get_str_def update_conv' ormWhen_def ormChoices_def ormAnswer_def Let_def)
      ultimately show ?thesis using that by blast
    qed
    from prompt_from_answerable [of "questionsAfterOrm options" u a3] after_answerable
    obtain a4 where a4: "fst (prompt_from u (questionsAfterOrm options) a3) = Some a4"
      and fr: "\<forall>n. n \<notin> q_name ` set (questionsAfterOrm options) \<longrightarrow> map_of a4 n = map_of a3 n"
      by blast
    have "get_str a4 ''database'' = databaseAnswer options u"
      "get_str a4 ''orm'' = ormAnswer options u"
      using fr after_names a3_db a3_orm by (simp_all add: get_str_def)
    with a3 a4 show ?thesis by (simp add: split3)
  qed
qed

lemma full_flow_config:
  assumes "fst (promptLightMode options u) = Some False" "fst (promptConfigureMore u) = Some True"
  shows "fst (promptProjectConfig projectName options u) =
           map_option (fullConfig projectName options) (fst (prompt u (fullQuestions options)))"
  using assms
  by (auto simp add: promptProjectConfig_def promptFullConfiguration_def
        split: prod.splits option.splits)

lemma full_flow_database:
  assumes "fst (promptLightMode options u) = Some False" "fst (promptConfigureMore u) = Some True"
    and "\<not> ormUnanswerable options u"
  shows "\<exists>config. fst (promptProjectConfig projectName options u) = Some config
     \<and> database config =
           (if opt_withDb options = Some True then Some (or_default (opt_db options) ''mongodb'')
            else none_to_undefined (databaseAnswer options u))
     \<and> orm config = or_else (opt_orm options) (ormAnswer options u)"
proof -
  from full_answers(2) [OF assms(3)] obtain answers where
    a: "fst (prompt u (fullQuestions options)) = Some answers"
      "get_str answers ''database'' = databaseAnswer options u"
      "get_str answers ''orm'' = ormAnswer options u"
    by blast
  then show ?thesis
    by (simp add: full_flow_config [OF assms(1,2)] fullConfig_def)
qed


lemma sample_full_flow:
  "fst (promptLightMode explicitPairOptions firstChoiceUser) = Some False"
  "fst (promptLightMode fullFlowOptions secondChoiceUser) = Some False"
  "fst (promptLightMode adapterOnlyOptions firstChoiceUser) = Some False"
  "fst (promptLightMode scenarioBOptions firstChoiceUser) = Some False"
  "fst (promptLightMode withDbOnlyOptions firstChoiceUser) = Some False"
  "fst (promptLightMode noOptions firstChoiceUser) = Some False"
  "fst (promptConfigureMore firstChoiceUser) = Some True"
  "fst (promptConfigureMore secondChoiceUser) = Some True"
  by (simp_all add: promptLightMode_def promptConfigureMore_def explicitPairOptions_def
        fullFlowOptions_def adapterOnlyOptions_def scenarioBOptions_def withDbOnlyOptions_def
        commanderDefaults_def noOptions_def prompt_def question_def ask_def
        get_bool_def firstChoiceUser_def secondChoiceUser_def)

lemma sample_answerable:
  "\<not> ormUnanswerable explicitPairOptions firstChoiceUser"
  "\<not> ormUnanswerable adapterOnlyOptions firstChoiceUser"
  "\<not> ormUnanswerable scenarioBOptions firstChoiceUser"
  "\<not> ormUnanswerable noOptions firstChoiceUser"
  "ormUnanswerable withDbOnlyOptions firstChoiceUser"
  by (simp_all add: ormUnanswerable_def databaseAnswer_def or_else_def truthy_def Let_def
        explicitPairOptions_def adapterOnlyOptions_def scenarioBOptions_def withDbOnlyOptions_def
        commanderDefaults_def noOptions_def firstChoiceUser_def)

lemma createProject_after_interview:
  assumes "fst (promptProjectConfig projectName options u) = Some config"
  shows "ending (createProject generation currentDir projectName options u fs) =
           (if pathExists fs (path_join currentDir projectName) then Exited 1
            else snd (generation config (path_join currentDir projectName)))"
    and "ops (createProject generation currentDir projectName options u fs) =
           (if pathExists fs (path_join currentDir projectName) then []
            else EnsureDir (path_join currentDir projectName)
                   # fst (generation config (path_join currentDir projectName)))"
  using assms
  by (auto simp add: createProject_def Let_def split: prod.splits option.splits)


text \<open>
  Claim C1, as stated, fails. With \<open>withDb\<close>, \<open>db = mongodb\<close> and \<open>orm = sequelize\<close> all
  explicit, a pair that is not in the compatibility table, the resolver does not fail: it
  returns a configuration that carries exactly this pair, and \<open>createProject\<close> goes on to
  create the project directory.
\<close>

theorem incompatible_pair_accepted:
  "opt_db explicitPairOptions = Some ''mongodb''
   \<and> opt_orm explicitPairOptions = Some ''sequelize''
   \<and> \<not> compatible ''mongodb'' ''sequelize''
   \<and> map_option database (fst (promptProjectConfig ''shop'' explicitPairOptions firstChoiceUser))
       = Some (Some ''mongodb'')
   \<and> map_option orm (fst (promptProjectConfig ''shop'' explicitPairOptions firstChoiceUser))
       = Some (Some ''sequelize'')
   \<and> ending (createProject noGeneration ''/work'' ''shop'' explicitPairOptions firstChoiceUser emptyFs)
       = Returned
   \<and> ops (createProject noGeneration ''/work'' ''shop'' explicitPairOptions firstChoiceUser emptyFs)
       = [EnsureDir ''/work/shop'']"
proof -
  have o: "opt_db explicitPairOptions = Some ''mongodb''"
      "opt_orm explicitPairOptions = Some ''sequelize''"
      "opt_withDb explicitPairOptions = Some True"
    by (simp_all add: explicitPairOptions_def commanderDefaults_def noOptions_def)
  have c: "\<not> compatible ''mongodb'' ''sequelize''"
    by (simp add: compatible_def compatibilityTable_def)
  from full_flow_database [OF sample_full_flow(1) sample_full_flow(7) sample_answerable(1), of "''shop''"]
  obtain config where
    cfg: "fst (promptProjectConfig ''shop'' explicitPairOptions firstChoiceUser) = Some config"
    and d: "database config = Some ''mongodb''" and a: "orm config = Some ''sequelize''"
    using o by (auto simp add: or_default_def or_else_def truthy_def)
  have r: "ending (createProject noGeneration ''/work'' ''shop'' explicitPairOptions firstChoiceUser emptyFs)
       = Returned"
    "ops (createProject noGeneration ''/work'' ''shop'' explicitPairOptions firstChoiceUser emptyFs)
       = [EnsureDir ''/work/shop'']"
    by (simp_all add: createProject_after_interview [OF cfg] pathExists_def emptyFs_def
          noGeneration_def path_join_def)
  from o c cfg d a r show ?thesis by simp
qed

text \<open>
  Claim C1, amended. The resolver never rejects a pair of database and adapter. In the
  full flow, with \<open>withDb\<close> set and both \<open>db\<close> and \<open>orm\<close> explicit and non-empty, the
  resolver returns a configuration that carries exactly the explicit pair, in the table or
  not, so the pair is never replaced by a default. The table is applied only through the
  choices of the adapter question: when the adapter is not explicit and the database is
  either explicit (\<open>withDb\<close> with \<open>db\<close> \<open>mongodb\<close> or \<open>postgres\<close>) or answered
  interactively (no \<open>withDb\<close>, no \<open>db\<close>), and the user picks from the offered values, then
  the resolver returns a configuration whose database and adapter are both absent or form
  a pair of the table.
\<close>

theorem explicit_pair_passed_through:
  "(fst (promptLightMode options u) = Some False \<and> fst (promptConfigureMore u) = Some True
      \<and> opt_withDb options = Some True
      \<and> opt_db options = Some d \<and> d \<noteq> [] \<and> opt_orm options = Some a \<and> a \<noteq> []
    \<longrightarrow> (\<exists>config. fst (promptProjectConfig projectName options u) = Some config
          \<and> database config = Some d \<and> orm config = Some a))
   \<and> (fst (promptLightMode options u) = Some False \<and> fst (promptConfigureMore u) = Some True
      \<and> \<not> truthy (opt_orm options)
      \<and> pick u ''database'' [''none'', ''mongodb'', ''postgres'']
           \<in> set [''none'', ''mongodb'', ''postgres'']
      \<and> pick u ''orm'' [''mongoose'', ''prisma''] \<in> set [''mongoose'', ''prisma'']
      \<and> pick u ''orm'' [''prisma'', ''sequelize'', ''typeorm'']
           \<in> set [''prisma'', ''sequelize'', ''typeorm'']
      \<and> (opt_withDb options = Some True
            \<and> (opt_db options = Some ''mongodb'' \<or> opt_db options = Some ''postgres'')
          \<or> opt_withDb options = None \<and> \<not> truthy (opt_db options))
    \<longrightarrow> (\<exists>config. fst (promptProjectConfig projectName options u) = Some config
          \<and> ((database config = None \<and> orm config = None)
             \<or> (\<exists>d' a'. database config = Some d' \<and> orm config = Some a' \<and> compatible d' a'))))"
proof (intro conjI impI)
  assume h: "fst (promptLightMode options u) = Some False \<and> fst (promptConfigureMore u) = Some True
      \<and> opt_withDb options = Some True
      \<and> opt_db options = Some d \<and> d \<noteq> [] \<and> opt_orm options = Some a \<and> a \<noteq> []"
  then have f: "fst (promptLightMode options u) = Some False" "fst (promptConfigureMore u) = Some True"
    by simp_all
  have nb: "\<not> ormUnanswerable options u"
    using h by (simp add: ormUnanswerable_def truthy_def Let_def)
  from h full_flow_database [OF f nb, of projectName]
  show "\<exists>config. fst (promptProjectConfig projectName options u) = Some config
          \<and> database config = Some d \<and> orm config = Some a"
    by (auto simp add: or_default_def or_else_def truthy_def)
next
  assume h: "fst (promptLightMode options u) = Some False \<and> fst (promptConfigureMore u) = Some True
      \<and> \<not> truthy (opt_orm options)
      \<and> pick u ''database'' [''none'', ''mongodb'', ''postgres'']
           \<in> set [''none'', ''mongodb'', ''postgres'']
      \<and> pick u ''orm'' [''mongoose'', ''prisma''] \<in> set [''mongoose'', ''prisma'']
      \<and> pick u ''orm'' [''prisma'', ''sequelize'', ''typeorm'']
           \<in> set [''prisma'', ''sequelize'', ''typeorm'']
      \<and> (opt_withDb options = Some True
            \<and> (opt_db options = Some ''mongodb'' \<or> opt_db options = Some ''postgres'')
          \<or> opt_withDb options = None \<and> \<not> truthy (opt_db options))"
  then have f: "fst (promptLightMode options u) = Some False" "fst (promptConfigureMore u) = Some True"
    by simp_all
  have no: "\<not> truthy (opt_orm options)" using h by simp
  have m: "compatible ''mongodb'' (pick u ''orm'' [''mongoose'', ''prisma''])"
    using h by (auto simp add: compatible_def compatibilityTable_def)
  have p: "compatible ''postgres'' (pick u ''orm'' [''prisma'', ''sequelize'', ''typeorm''])"
    using h by (auto simp add: compatible_def compatibilityTable_def)
  have dbs: "pick u ''database'' [''none'', ''mongodb'', ''postgres''] = ''none''
       \<or> pick u ''database'' [''none'', ''mongodb'', ''postgres''] = ''mongodb''
       \<or> pick u ''database'' [''none'', ''mongodb'', ''postgres''] = ''postgres''"
    using h by auto
  let ?goal = "\<exists>config. fst (promptProjectConfig projectName options u) = Some config
          \<and> ((database config = None \<and> orm config = None)
             \<or> (\<exists>d' a'. database config = Some d' \<and> orm config = Some a' \<and> compatible d' a'))"
  from h have "opt_withDb options = Some True
            \<and> (opt_db options = Some ''mongodb'' \<or> opt_db options = Some ''postgres'')
          \<or> opt_withDb options = None \<and> \<not> truthy (opt_db options)" by simp
  then show ?goal
  proof (elim disjE conjE)
    assume w: "opt_withDb options = Some True" "opt_db options = Some ''mongodb''"
    then have nb: "\<not> ormUnanswerable options u"
      by (simp add: ormUnanswerable_def or_else_def truthy_def Let_def)
    from full_flow_database [OF f nb, of projectName] w no m show ?goal
      by (auto simp add: ormAnswer_def databaseAnswer_def or_else_def or_default_def truthy_def Let_def)
  next
    assume w: "opt_withDb options = Some True" "opt_db options = Some ''postgres''"
    then have nb: "\<not> ormUnanswerable options u"
      by (simp add: ormUnanswerable_def or_else_def truthy_def Let_def)
    from full_flow_database [OF f nb, of projectName] w no p show ?goal
      by (auto simp add: ormAnswer_def databaseAnswer_def or_else_def or_default_def truthy_def Let_def)
  next
    assume w: "opt_withDb options = None" "\<not> truthy (opt_db options)"
    from dbs w have nb: "\<not> ormUnanswerable options u"
      by (auto simp add: ormUnanswerable_def databaseAnswer_def or_else_def Let_def)
    from dbs show ?goal
    proof (elim disjE)
      assume "pick u ''database'' [''none'', ''mongodb'', ''postgres''] = ''none''"
      with full_flow_database [OF f nb, of projectName] w no show ?goal
        by (auto simp add: ormAnswer_def databaseAnswer_def or_else_def none_to_undefined_def Let_def)
    next
      assume "pick u ''database'' [''none'', ''mongodb'', ''postgres''] = ''mongodb''"
      with full_flow_database [OF f nb, of projectName] w no m show ?goal
        by (auto simp add: ormAnswer_def databaseAnswer_def or_else_def none_to_undefined_def Let_def)
    next
      assume "pick u ''database'' [''none'', ''mongodb'', ''postgres''] = ''postgres''"
      with full_flow_database [OF f nb, of projectName] w no p show ?goal
        by (auto simp add: ormAnswer_def databaseAnswer_def or_else_def none_to_undefined_def Let_def)
    qed
  qed
qed

theorem explicit_pair_passed_through_witness:
  "fst (promptLightMode explicitPairOptions firstChoiceUser) = Some False
   \<and> fst (promptConfigureMore firstChoiceUser) = Some True
   \<and> opt_withDb explicitPairOptions = Some True
   \<and> opt_db explicitPairOptions = Some ''mongodb'' \<and> opt_orm explicitPairOptions = Some ''sequelize''
   \<and> (\<exists>config. fst (promptProjectConfig ''shop'' explicitPairOptions firstChoiceUser) = Some config
         \<and> database config = Some ''mongodb'' \<and> orm config = Some ''sequelize'')
   \<and> fst (promptLightMode fullFlowOptions secondChoiceUser) = Some False
   \<and> fst (promptConfigureMore secondChoiceUser) = Some True
   \<and> \<not> truthy (opt_orm fullFlowOptions)
   \<and> opt_withDb fullFlowOptions = None \<and> \<not> truthy (opt_db fullFlowOptions)
   \<and> pick secondChoiceUser ''database'' [''none'', ''mongodb'', ''postgres''] = ''mongodb''
   \<and> pick secondChoiceUser ''orm'' [''mongoose'', ''prisma''] = ''prisma''
   \<and> pick secondChoiceUser ''orm'' [''prisma'', ''sequelize'', ''typeorm''] = ''sequelize''
   \<and> (\<exists>config. fst (promptProjectConfig ''shop'' fullFlowOptions secondChoiceUser) = Some config
         \<and> ((database config = None \<and> orm config = None)
            \<or> (\<exists>d' a'. database config = Some d' \<and> orm config = Some a' \<and> compatible d' a')))"
proof -
  have o: "opt_withDb explicitPairOptions = Some True"
      "opt_db explicitPairOptions = Some ''mongodb''" "opt_orm explicitPairOptions = Some ''sequelize''"
    by (simp_all add: explicitPairOptions_def commanderDefaults_def noOptions_def)
  have f: "\<not> truthy (opt_orm fullFlowOptions)" "opt_withDb fullFlowOptions = None"
      "\<not> truthy (opt_db fullFlowOptions)"
    by (simp_all add: fullFlowOptions_def commanderDefaults_def noOptions_def truthy_def)
  have u: "pick secondChoiceUser ''database'' [''none'', ''mongodb'', ''postgres''] = ''mongodb''"
      "pick secondChoiceUser ''orm'' [''mongoose'', ''prisma''] = ''prisma''"
      "pick secondChoiceUser ''orm'' [''prisma'', ''sequelize'', ''typeorm''] = ''sequelize''"
    by (simp_all add: secondChoiceUser_def)
  from o f u sample_full_flow
    explicit_pair_passed_through [of explicitPairOptions firstChoiceUser "''mongodb''" "''sequelize''" "''shop''"]
    explicit_pair_passed_through [of fullFlowOptions secondChoiceUser "''mongodb''" "''sequelize''" "''shop''"]
  show ?thesis by simp
qed

subsection \<open>Commands\<close>




text \<open>
  For comparison, on a project without that resource the command returns normally and
  creates the resource directory and its files.
\<close>

lemma add_on_fresh_resource:
  "ending (addResource ''/work'' ''user'' noAddOptions firstChoiceUser projectFs) = Returned
   \<and> ops (addResource ''/work'' ''user'' noAddOptions firstChoiceUser projectFs) =
       [EnsureDir ''/work/src/resources/user'',
        WriteFile ''/work/src/resources/user/controller.js'' ControllerContent,
        WriteFile ''/work/src/resources/user/service.js'' ServiceContent,
        WriteFile ''/work/src/resources/user/routes.js'' RoutesContent,
        WriteFile ''/work/src/resources/user/validation.js'' ValidationContent,
        WriteFile ''/work/src/resources/user/index.js'' IndexContent]"
  by (simp add: addResource_def Let_def pathExists_def path_join_def projectFs_def readJson_def
        promptResourceConfig_def resourceConfig_of_def prompt_def resourceQuestions_def
        question_def ask_def
        firstChoiceUser_def get_bool_def get_str_def noAddOptions_def truthy_def
        generateResource_def addResource_projectConfig_def detectDatabase_def manifestDeps_def
        spread_def assign_all_def has_dep_def bareManifest_def hasJest_def)

subsection \<open>Documentation record\<close>

text \<open>
  None of the builders of a configuration sets the documentation sub-record, so no
  configuration that the resolver returns has one; and without it the dependency
  computation, and with it the manifest, raises.
\<close>

lemma builders_leave_swagger_unset:
  "swagger (createLightConfig projectName options) = None"
  "swagger (createDefaultConfig projectName options) = None"
  "swagger (fullConfig projectName options answers) = None"
  "swagger (addResource_projectConfig packageJson hasTsConfig) = None"
  by (simp_all add: createLightConfig_def createDefaultConfig_def fullConfig_def
        addResource_projectConfig_def Let_def)

lemma resolved_swagger_unset:
  assumes "fst (promptProjectConfig projectName options u) = Some config"
  shows "swagger config = None"
  using assms builders_leave_swagger_unset(1-3)
  by (auto simp add: promptProjectConfig_def promptFullConfiguration_def Let_def
        split: prod.splits option.splits if_splits bool.splits)

lemma no_swagger_raises:
  assumes "swagger config = None"
  shows "generateDependencies config = Inl TypeError"
    and "generatePackageJson config = Inl TypeError"
  using assms by (simp_all add: generateDependencies_def generatePackageJson_def Let_def)

text \<open>
  Claim C7, evaluated on the configurations that the program builds. The claim says that
  the dependency computation is total and non-throwing on every configuration. On the
  light, the default and the full configuration of \<open>create\<close>, for all options and answers,
  and on the configuration that \<open>add\<close> synthesizes, for every manifest, it raises the
  \<open>TypeError\<close> of reading \<open>enabled\<close> of \<open>undefined\<close>. In particular on the command line
  \<open>create shop --with-db --db postgres --orm prisma\<close> the resolver returns a configuration
  with \<open>postgres\<close> and \<open>prisma\<close>, and both the dependency computation and the manifest
  raise on it instead of returning a map with \<open>@prisma/client\<close>.
\<close>

theorem dependencies_raise_on_resolved_configurations:
  "generateDependencies (createLightConfig projectName options) = Inl TypeError
   \<and> generateDependencies (createDefaultConfig projectName options) = Inl TypeError
   \<and> generateDependencies (fullConfig projectName options answers) = Inl TypeError
   \<and> generateDependencies (addResource_projectConfig packageJson hasTsConfig) = Inl TypeError
   \<and> opt_withDb scenarioBOptions = Some True
   \<and> opt_db scenarioBOptions = Some ''postgres''
   \<and> opt_orm scenarioBOptions = Some ''prisma''
   \<and> (\<exists>config. fst (promptProjectConfig ''shop'' scenarioBOptions firstChoiceUser) = Some config
         \<and> database config = Some ''postgres''
         \<and> orm config = Some ''prisma''
         \<and> generateDependencies config = Inl TypeError
         \<and> generatePackageJson config = Inl TypeError)"
proof -
  have o: "opt_withDb scenarioBOptions = Some True" "opt_db scenarioBOptions = Some ''postgres''"
      "opt_orm scenarioBOptions = Some ''prisma''"
    by (simp_all add: scenarioBOptions_def commanderDefaults_def noOptions_def)
  from full_flow_database [OF sample_full_flow(4) sample_full_flow(7) sample_answerable(3), of "''shop''"]
  obtain config where
    cfg: "fst (promptProjectConfig ''shop'' scenarioBOptions firstChoiceUser) = Some config"
    and d: "database config = Some ''postgres''" and a: "orm config = Some ''prisma''"
    using o by (auto simp add: or_default_def or_else_def truthy_def)
  note r = no_swagger_raises [OF resolved_swagger_unset [OF cfg]]
  from o cfg d a r
    no_swagger_raises(1) [OF builders_leave_swagger_unset(1), of projectName options]
    no_swagger_raises(1) [OF builders_leave_swagger_unset(2), of projectName options]
    no_swagger_raises(1) [OF builders_leave_swagger_unset(3), of projectName options answers]
    no_swagger_raises(1) [OF builders_leave_swagger_unset(4), of packageJson hasTsConfig]
  show ?thesis by blast
qed

subsection \<open>Adapter without a database\<close>

text \<open>
  The schema-management scripts and the schema task depend on the adapter alone, whereas
  the model file and the \<open>prisma\<close> directory of the directory planner are tied to the
  database kind.
\<close>

lemma prisma_scripts_follow_adapter:
  "orm config = Some ''prisma'' \<Longrightarrow>
     {''db:generate'', ''db:push'', ''db:migrate'', ''db:studio''} \<subseteq> keys (generateScripts config)"
  by (simp add: generateScripts_def Let_def keys_assign_all)

lemma prisma_schema_follows_adapter:
  "orm config = Some ''prisma'' \<Longrightarrow> PrismaSchema \<in> set (generateConfigFiles config)"
  by (simp add: generateConfigFiles_def)

lemma no_model_without_database:
  "database projectConfig = None \<Longrightarrow>
     WriteFile p ModelContent \<notin> set (generateResource projectConfig resourceConfig basePath)"
  by (simp add: generateResource_def Let_def truthy_def)

lemma no_prisma_directory_without_database:
  "database config = None \<Longrightarrow>
     EnsureDir (path_join projectPath ''prisma'') \<notin> set (createDirectoryStructure config projectPath)"
  by (auto simp add: createDirectoryStructure_def Let_def truthy_def path_join_def)

text \<open>
  Without a database kind the schema text stops inside the \<open>datasource\<close> block, which is
  never closed.
\<close>

lemma schema_without_database_unterminated:
  \<open>database config = None \<Longrightarrow>
     prismaSchemaText config =
       concat
        [''// This is your Prisma schema file,\<newline>'',
         ''// learn more about it in the docs: https://pris.ly/d/prisma-schema\<newline>'',
         ''\<newline>'',
         ''generator client {\<newline>'',
         ''  provider = "prisma-client-js"\<newline>'',
         ''}\<newline>'',
         ''\<newline>'',
         ''datasource db {'']\<close>
  by (simp add: prismaSchemaText_def)

text \<open>
  Claim C6, evaluated on the command line \<open>create shop --orm prisma\<close> (no \<open>--with-db\<close>),
  the user declining light mode, asking to configure more and choosing the database
  \<open>none\<close>. The resolver returns a configuration that has no database kind but keeps
  the adapter \<open>prisma\<close>; on it the script computation of the manifest yields the four
  schema-management scripts and the tooling step writes the schema file. The claim says
  that the adapter is absent and that no such output is produced.
\<close>

theorem adapter_without_database:
  "opt_withDb adapterOnlyOptions = None
   \<and> opt_db adapterOnlyOptions = None
   \<and> opt_orm adapterOnlyOptions = Some ''prisma''
   \<and> pick firstChoiceUser ''database'' [''none'', ''mongodb'', ''postgres''] = ''none''
   \<and> (\<exists>config. fst (promptProjectConfig ''shop'' adapterOnlyOptions firstChoiceUser) = Some config
         \<and> database config = None
         \<and> orm config = Some ''prisma''
         \<and> {''db:generate'', ''db:push'', ''db:migrate'', ''db:studio''}
              \<subseteq> keys (generateScripts config)
         \<and> PrismaSchema \<in> set (generateConfigFiles config))"
proof -
  have o: "opt_withDb adapterOnlyOptions = None" "opt_db adapterOnlyOptions = None"
      "opt_orm adapterOnlyOptions = Some ''prisma''"
    by (simp_all add: adapterOnlyOptions_def commanderDefaults_def noOptions_def)
  have u: "pick firstChoiceUser ''database'' [''none'', ''mongodb'', ''postgres''] = ''none''"
    by (simp add: firstChoiceUser_def)
  from full_flow_database [OF sample_full_flow(3) sample_full_flow(7) sample_answerable(2), of "''shop''"]
  obtain config where
    cfg: "fst (promptProjectConfig ''shop'' adapterOnlyOptions firstChoiceUser) = Some config"
    and d: "database config = None" and a: "orm config = Some ''prisma''"
    using o u by (auto simp add: databaseAnswer_def none_to_undefined_def or_else_def truthy_def)
  from o u cfg d a prisma_scripts_follow_adapter [OF a] prisma_schema_follows_adapter [OF a]
  show ?thesis by blast
qed

subsection \<open>Resource artifacts\<close>

lemma capitalize_post: "capitalize ''post'' = ''Post''"
  by code_simp

lemma capitalize_order: "capitalize ''order'' = ''Order''"
  by code_simp

lemma routes_ignore_resource_options:
  "generateRoutesContent projectConfig
     (resourceConfig\<lparr>customEndpoints := e, r_includeValidation := v, r_boilerplateLevel := b\<rparr>)
   = generateRoutesContent projectConfig resourceConfig"
  by (simp add: generateRoutesContent_def)

lemma service_ignores_resource_options:
  "generateServiceContent projectConfig
     (resourceConfig\<lparr>customEndpoints := e, r_includeValidation := v, r_boilerplateLevel := b\<rparr>)
   = generateServiceContent projectConfig resourceConfig"
  by (simp add: generateServiceContent_def)

lemma service_ignores_project_boilerplate:
  "generateServiceContent (projectConfig\<lparr>boilerplateLevel := b\<rparr>) resourceConfig
   = generateServiceContent projectConfig resourceConfig"
  by (simp add: generateServiceContent_def)

text \<open>
  Claim C3, evaluated on the resource \<open>post\<close> with the custom endpoints \<open>publish\<close> and
  \<open>archive\<close>, auth middleware on, in a \<open>ts\<close> project with \<open>jwt\<close> auth. The route artifact
  has the five standard routes, with the validation middleware and then the auth middleware
  before the handlers of \<open>POST\<close> and \<open>PUT\<close> and the auth middleware alone on \<open>DELETE\<close>.
  It has no route for the custom endpoints: neither name occurs in the text. The claim says
  that routes for them follow the five standard routes.
\<close>

theorem custom_endpoints_not_routed:
  \<open>customEndpoints postResource = Some [''publish'', ''archive'']
   \<and> generateRoutesContent prismaConfig postResource =
      concat
       [''import { Router } from 'express';\<newline>'',
        ''import { PostController } from './controller';\<newline>'',
        ''import { validatePost } from './validation';import { authenticateToken } from '../../middleware/auth';\<newline>'',
        ''\<newline>'',
        ''const router = Router();\<newline>'',
        ''const postController = new PostController();\<newline>'',
        ''\<newline>'',
        ''router.get('/', postController.getAll);\<newline>'',
        ''router.get('/:id', postController.getById);\<newline>'',
        ''router.post('/', validatePost, authenticateToken, postController.create);\<newline>'',
        ''router.put('/:id', validatePost, authenticateToken, postController.update);\<newline>'',
        ''router.delete('/:id', authenticateToken, postController.delete);\<newline>'',
        ''\<newline>'',
        ''export default router;'']
   \<and> \<not> sublist ''publish'' (generateRoutesContent prismaConfig postResource)
   \<and> \<not> sublist ''archive'' (generateRoutesContent prismaConfig postResource)\<close>
proof -
  have c: \<open>generateRoutesContent prismaConfig postResource =
      concat
       [''import { Router } from 'express';\<newline>'',
        ''import { PostController } from './controller';\<newline>'',
        ''import { validatePost } from './validation';import { authenticateToken } from '../../middleware/auth';\<newline>'',
        ''\<newline>'',
        ''const router = Router();\<newline>'',
        ''const postController = new PostController();\<newline>'',
        ''\<newline>'',
        ''router.get('/', postController.getAll);\<newline>'',
        ''router.get('/:id', postController.getById);\<newline>'',
        ''router.post('/', validatePost, authenticateToken, postController.create);\<newline>'',
        ''router.put('/:id', validatePost, authenticateToken, postController.update);\<newline>'',
        ''router.delete('/:id', authenticateToken, postController.delete);\<newline>'',
        ''\<newline>'',
        ''export default router;'']\<close>
    by (simp add: generateRoutesContent_def prismaConfig_def postResource_def Let_def
          capitalize_post truthy_def)
  have p: "\<not> sublist ''publish'' (generateRoutesContent prismaConfig postResource)"
    unfolding c by code_simp
  have a: "\<not> sublist ''archive'' (generateRoutesContent prismaConfig postResource)"
    unfolding c by code_simp
  have e: "customEndpoints postResource = Some [''publish'', ''archive'']"
    by (simp add: postResource_def)
  from e c p a show ?thesis by blast
qed

text \<open>The index artifact of the same resource mounts the routes under \<open>/api/posts\<close>.\<close>

lemma post_routes_mounted:
  \<open>sublist ''app.use('/api/posts', postRoutes);'' (generateIndexContent prismaConfig postResource)\<close>
proof -
  have \<open>generateIndexContent prismaConfig postResource =
      concat
       [''import { Application } from 'express';\<newline>'',
        ''import postRoutes from './routes';\<newline>'',
        ''\<newline>'',
        ''export default function registerPostRoutes(app: Application): void {\<newline>'',
        ''  app.use('/api/posts', postRoutes);\<newline>'',
        ''}'']\<close>
    by (simp add: generateIndexContent_def prismaConfig_def postResource_def Let_def capitalize_post)
  then show ?thesis
    by (simp only:) code_simp
qed

text \<open>
  Claim C4, evaluated on the resource \<open>order\<close> with boilerplate level \<open>signatures\<close> in a
  \<open>ts\<close> project without a database. The service artifact is the one generated for the
  level \<open>full\<close>: the five operations with their working bodies over the in-memory array.
  The claim says that the bodies are empty or placeholders and that there is no in-memory
  array logic.
\<close>

theorem signatures_service_has_full_bodies:
  \<open>r_boilerplateLevel orderResource = ''signatures''
   \<and> generateServiceContent memoryConfig orderResource =
      generateServiceContent memoryConfig (orderResource\<lparr>r_boilerplateLevel := ''full''\<rparr>)
   \<and> generateServiceContent memoryConfig orderResource =
      concat
        [''\<newline>'',
         ''\<newline>'',
         ''export class OrderService {\<newline>'',
         ''  private orders: any[] = [];\<newline>'',
         ''  private nextId = 1;\<newline>'',
         ''\<newline>'',
         ''  async findAll(): Promise<any[]> {\<newline>'',
         ''    return this.orders;\<newline>'',
         ''  }\<newline>'',
         ''\<newline>'',
         ''  async findById(id: string): Promise<any | null> {\<newline>'',
         ''    return this.orders.find(item => item.id === parseInt(id)) || null;\<newline>'',
         ''  }\<newline>'',
         ''\<newline>'',
         ''  async create(data: any): Promise<any> {\<newline>'',
         ''    const newOrder = { id: this.nextId++, ...data, createdAt: new Date() };\<newline>'',
         ''    this.orders.push(newOrder);\<newline>'',
         ''    return newOrder;\<newline>'',
         ''  }\<newline>'',
         ''\<newline>'',
         ''  async update(id: string, data: any): Promise<any | null> {\<newline>'',
         ''    const index = this.orders.findIndex(item => item.id === parseInt(id));\<newline>'',
         ''    if (index === -1) return null;\<newline>'',
         ''    \<newline>'',
         ''    this.orders[index] = { ...this.orders[index], ...data, updatedAt: new Date() };\<newline>'',
         ''    return this.orders[index];\<newline>'',
         ''  }\<newline>'',
         ''\<newline>'',
         ''  async delete(id: string): Promise<boolean> {\<newline>'',
         ''    const index = this.orders.findIndex(item => item.id === parseInt(id));\<newline>'',
         ''    if (index === -1) return false;\<newline>'',
         ''    \<newline>'',
         ''    this.orders.splice(index, 1);\<newline>'',
         ''    return true;\<newline>'',
         ''  }\<newline>'',
         ''}'']
   \<and> sublist ''private orders: any[] = [];'' (generateServiceContent memoryConfig orderResource)
   \<and> sublist ''this.orders.push(newOrder);'' (generateServiceContent memoryConfig orderResource)\<close>
proof -
  have c: \<open>generateServiceContent memoryConfig orderResource =
      concat
        [''\<newline>'',
         ''\<newline>'',
         ''export class OrderService {\<newline>'',
         ''  private orders: any[] = [];\<newline>'',
         ''  private nextId = 1;\<newline>'',
         ''\<newline>'',
         ''  async findAll(): Promise<any[]> {\<newline>'',
         ''    return this.orders;\<newline>'',
         ''  }\<newline>'',
         ''\<newline>'',
         ''  async findById(id: string): Promise<any | null> {\<newline>'',
         ''    return this.orders.find(item => item.id === parseInt(id)) || null;\<newline>'',
         ''  }\<newline>'',
         ''\<newline>'',
         ''  async create(data: any): Promise<any> {\<newline>'',
         ''    const newOrder = { id: this.nextId++, ...data, createdAt: new Date() };\<newline>'',
         ''    this.orders.push(newOrder);\<newline>'',
         ''    return newOrder;\<newline>'',
         ''  }\<newline>'',
         ''\<newline>'',
         ''  async update(id: string, data: any): Promise<any | null> {\<newline>'',
         ''    const index = this.orders.findIndex(item => item.id === parseInt(id));\<newline>'',
         ''    if (index === -1) return null;\<newline>'',
         ''    \<newline>'',
         ''    this.orders[index] = { ...this.orders[index], ...data, updatedAt: new Date() };\<newline>'',
         ''    return this.orders[index];\<newline>'',
         ''  }\<newline>'',
         ''\<newline>'',
         ''  async delete(id: string): Promise<boolean> {\<newline>'',
         ''    const index = this.orders.findIndex(item => item.id === parseInt(id));\<newline>'',
         ''    if (index === -1) return false;\<newline>'',
         ''    \<newline>'',
         ''    this.orders.splice(index, 1);\<newline>'',
         ''    return true;\<newline>'',
         ''  }\<newline>'',
         ''}'']\<close>
    by (simp add: generateServiceContent_def memoryConfig_def prismaConfig_def orderResource_def
          Let_def capitalize_order truthy_def)
  have a: "sublist ''private orders: any[] = [];'' (generateServiceContent memoryConfig orderResource)"
    unfolding c by code_simp
  have p: "sublist ''this.orders.push(newOrder);'' (generateServiceContent memoryConfig orderResource)"
    unfolding c by code_simp
  have b: "r_boilerplateLevel orderResource = ''signatures''"
    by (simp add: orderResource_def)
  have e: "generateServiceContent memoryConfig orderResource =
      generateServiceContent memoryConfig (orderResource\<lparr>r_boilerplateLevel := ''full''\<rparr>)"
    by (simp add: generateServiceContent_def)
  from b e c a p show ?thesis by blast
qed

end
